theory Spec2Isabelle
  imports Complex_Main
begin

section \<open>JavaScript numbers\<close>

text \<open>
  The analytics module \<^verbatim>\<open>src/server/utils/quantAnalysis.js\<close> computes on JavaScript
  numbers, IEEE 754 binary64 values. A number is modelled as a finite value or one of the
  three non-finite values; zero is unsigned. The input arrays of the module (price series,
  return series) and its scalar parameters are finite numbers, hence of type \<^typ>\<open>real\<close>;
  every computed value is a \<open>jsnum\<close>.

  The operations of this section return the exact result on finite operands and follow
  ECMAScript on the non-finite ones: \<^verbatim>\<open>x / 0\<close> is an infinity or \<^verbatim>\<open>NaN\<close>, every
  comparison with \<^verbatim>\<open>NaN\<close> is false, \<^verbatim>\<open>NaN\<close> is absorbing. The next section rounds them
  to binary64.
\<close>

datatype jsnum = Num real | PInf | NInf | NaN

fun jsNeg :: "jsnum \<Rightarrow> jsnum" where
  "jsNeg (Num x) = Num (- x)"
| "jsNeg PInf = NInf"
| "jsNeg NInf = PInf"
| "jsNeg NaN = NaN"

fun jsAdd :: "jsnum \<Rightarrow> jsnum \<Rightarrow> jsnum" where
  "jsAdd NaN _ = NaN"
| "jsAdd _ NaN = NaN"
| "jsAdd (Num x) (Num y) = Num (x + y)"
| "jsAdd PInf NInf = NaN"
| "jsAdd NInf PInf = NaN"
| "jsAdd PInf _ = PInf"
| "jsAdd _ PInf = PInf"
| "jsAdd NInf _ = NInf"
| "jsAdd _ NInf = NInf"

definition jsSub :: "jsnum \<Rightarrow> jsnum \<Rightarrow> jsnum" where
  "jsSub a b = jsAdd a (jsNeg b)"

text \<open>The infinity whose sign is the sign of a finite non-zero factor.\<close>

definition signedInf :: "real \<Rightarrow> jsnum" where
  "signedInf x = (if x = 0 then NaN else if 0 < x then PInf else NInf)"

fun jsMul :: "jsnum \<Rightarrow> jsnum \<Rightarrow> jsnum" where
  "jsMul NaN _ = NaN"
| "jsMul _ NaN = NaN"
| "jsMul (Num x) (Num y) = Num (x * y)"
| "jsMul (Num x) PInf = signedInf x"
| "jsMul (Num x) NInf = signedInf (- x)"
| "jsMul PInf (Num y) = signedInf y"
| "jsMul NInf (Num y) = signedInf (- y)"
| "jsMul PInf PInf = PInf"
| "jsMul PInf NInf = NInf"
| "jsMul NInf PInf = NInf"
| "jsMul NInf NInf = PInf"

fun jsDiv :: "jsnum \<Rightarrow> jsnum \<Rightarrow> jsnum" where
  "jsDiv NaN _ = NaN"
| "jsDiv _ NaN = NaN"
| "jsDiv (Num x) (Num y) = (if y = 0 then signedInf x else Num (x / y))"
| "jsDiv (Num x) PInf = Num 0"
| "jsDiv (Num x) NInf = Num 0"
| "jsDiv PInf (Num y) = (if 0 \<le> y then PInf else NInf)"
| "jsDiv NInf (Num y) = (if 0 \<le> y then NInf else PInf)"
| "jsDiv _ _ = NaN"

text \<open>\<^verbatim>\<open>a < b\<close>, \<^verbatim>\<open>a > b\<close> and \<^verbatim>\<open>a === b\<close> on numbers.\<close>

fun jsLess :: "jsnum \<Rightarrow> jsnum \<Rightarrow> bool" where
  "jsLess NaN _ = False"
| "jsLess _ NaN = False"
| "jsLess (Num x) (Num y) = (x < y)"
| "jsLess _ NInf = False"
| "jsLess PInf _ = False"
| "jsLess NInf _ = True"
| "jsLess _ PInf = True"

definition jsGreater :: "jsnum \<Rightarrow> jsnum \<Rightarrow> bool" where
  "jsGreater a b = jsLess b a"

definition jsStrictEq :: "jsnum \<Rightarrow> jsnum \<Rightarrow> bool" where
  "jsStrictEq a b = (a \<noteq> NaN \<and> a = b)"

fun Math_sqrt :: "jsnum \<Rightarrow> jsnum" where
  "Math_sqrt (Num x) = (if x < 0 then NaN else Num (sqrt x))"
| "Math_sqrt PInf = PInf"
| "Math_sqrt NInf = NaN"
| "Math_sqrt NaN = NaN"


text \<open>
  \<^verbatim>\<open>Math.pow(base, exponent)\<close> after ECMAScript \<^verbatim>\<open>Number::exponentiate\<close>: a \<^verbatim>\<open>NaN\<close>
  exponent gives \<^verbatim>\<open>NaN\<close>, a zero exponent gives 1 for every base, and a base of absolute
  value 1 with an infinite exponent gives \<^verbatim>\<open>NaN\<close>.
\<close>

definition isOddInteger :: "real \<Rightarrow> bool" where
  "isOddInteger y = (y = of_int \<lfloor>y\<rfloor> \<and> odd \<lfloor>y\<rfloor>)"

fun Math_pow :: "jsnum \<Rightarrow> jsnum \<Rightarrow> jsnum" where
  "Math_pow _ NaN = NaN"
| "Math_pow NaN (Num y) = (if y = 0 then Num 1 else NaN)"
| "Math_pow NaN _ = NaN"
| "Math_pow (Num x) PInf =
     (if 1 < \<bar>x\<bar> then PInf else if \<bar>x\<bar> = 1 then NaN else Num 0)"
| "Math_pow (Num x) NInf =
     (if 1 < \<bar>x\<bar> then Num 0 else if \<bar>x\<bar> = 1 then NaN else PInf)"
| "Math_pow PInf PInf = PInf"
| "Math_pow NInf PInf = PInf"
| "Math_pow PInf NInf = Num 0"
| "Math_pow NInf NInf = Num 0"
| "Math_pow PInf (Num y) = (if y = 0 then Num 1 else if 0 < y then PInf else Num 0)"
| "Math_pow NInf (Num y) =
     (if y = 0 then Num 1
      else if 0 < y then (if isOddInteger y then NInf else PInf)
      else Num 0)"
| "Math_pow (Num x) (Num y) =
     (if y = 0 then Num 1
      else if x = 0 then (if 0 < y then Num 0 else PInf)
      else if 0 < x then Num (x powr y)
      else if y = of_int \<lfloor>y\<rfloor> then Num (x powi \<lfloor>y\<rfloor>)
      else NaN)"

fun jsAbs :: "jsnum \<Rightarrow> jsnum" where
  "jsAbs (Num x) = Num \<bar>x\<bar>"
| "jsAbs PInf = PInf"
| "jsAbs NInf = PInf"
| "jsAbs NaN = NaN"

definition jsGreaterEq :: "jsnum \<Rightarrow> jsnum \<Rightarrow> bool" where
  "jsGreaterEq a b = (jsLess b a \<or> jsStrictEq a b)"

fun Math_floor :: "jsnum \<Rightarrow> jsnum" where
  "Math_floor (Num x) = Num (of_int \<lfloor>x\<rfloor>)"
| "Math_floor PInf = PInf"
| "Math_floor NInf = NInf"
| "Math_floor NaN = NaN"

section \<open>Binary64 arithmetic\<close>

text \<open>
  An IEEE operation returns the exact result rounded to the nearest binary64 value, ties to
  the even significand: \<open>roundToGrid\<close> rounds a real to the grid of its binade, whose
  spacing is \<open>2 powi ulpExponent x\<close> (53 significant bits, a fixed spacing of \<open>2 powi -1074\<close>
  in the subnormal range), and \<open>fl\<close> adds the overflow to an infinity. A rounded operation
  is the exact operation followed by \<open>round64\<close>. \<^verbatim>\<open>Math.sqrt\<close> is correctly rounded;
  \<^verbatim>\<open>Math.pow\<close> is implementation-approximated and is taken as correctly rounded.

  Two readings of the module follow. The return transforms, the annualised return, the
  volatility, covariance, beta and the moving average are read in exact arithmetic: what is
  stated of them is an identity that holds in binary64 up to rounding. The drawdown, the
  value at risk, the relative strength index and the Sortino ratio are read in binary64,
  every operation rounded, since what is stated of them is a bound or an ordering that
  rounding, overflow and underflow decide. A finite input of a binary64 function is a
  binary64 value, which \<open>is_double\<close> says.
\<close>

definition roundHalfEven :: "real \<Rightarrow> int" where
  "roundHalfEven y =
     (let f = \<lfloor>y\<rfloor>; d = y - of_int f
      in if d < 1 / 2 then f else if 1 / 2 < d then f + 1 else if even f then f else f + 1)"

definition ulpExponent :: "real \<Rightarrow> int" where
  "ulpExponent x = max (\<lfloor>log 2 \<bar>x\<bar>\<rfloor> - 52) (- 1074)"

definition roundToGrid :: "real \<Rightarrow> real" where
  "roundToGrid x =
     (if x = 0 then 0
      else of_int (roundHalfEven (x / 2 powi ulpExponent x)) * 2 powi ulpExponent x)"

definition fl :: "real \<Rightarrow> jsnum" where
  "fl x =
     (let r = roundToGrid x
      in if 2 ^ 1024 \<le> r then PInf else if r \<le> - (2 ^ 1024) then NInf else Num r)"

definition is_double :: "real \<Rightarrow> bool" where
  "is_double x = (fl x = Num x)"

fun round64 :: "jsnum \<Rightarrow> jsnum" where
  "round64 (Num x) = fl x"
| "round64 PInf = PInf"
| "round64 NInf = NInf"
| "round64 NaN = NaN"

definition add64 :: "jsnum \<Rightarrow> jsnum \<Rightarrow> jsnum" where
  "add64 a b = round64 (jsAdd a b)"

definition sub64 :: "jsnum \<Rightarrow> jsnum \<Rightarrow> jsnum" where
  "sub64 a b = round64 (jsSub a b)"

definition mul64 :: "jsnum \<Rightarrow> jsnum \<Rightarrow> jsnum" where
  "mul64 a b = round64 (jsMul a b)"

definition div64 :: "jsnum \<Rightarrow> jsnum \<Rightarrow> jsnum" where
  "div64 a b = round64 (jsDiv a b)"

definition sqrt64 :: "jsnum \<Rightarrow> jsnum" where
  "sqrt64 a = round64 (Math_sqrt a)"

definition pow64 :: "jsnum \<Rightarrow> jsnum \<Rightarrow> jsnum" where
  "pow64 a b = round64 (Math_pow a b)"

section \<open>Arrays\<close>

text \<open>
  Reading an array element: an index outside the array yields \<^verbatim>\<open>undefined\<close>, which every
  arithmetic operator converts to \<^verbatim>\<open>NaN\<close>.
\<close>

definition jsIndex :: "real list \<Rightarrow> int \<Rightarrow> jsnum" where
  "jsIndex xs i = (if 0 \<le> i \<and> i < int (length xs) then Num (xs ! nat i) else NaN)"

text \<open>\<^verbatim>\<open>xs.slice(start, end)\<close> for integer arguments; a negative argument counts from the end.\<close>

definition sliceBound :: "nat \<Rightarrow> int \<Rightarrow> nat" where
  "sliceBound len k = (if k < 0 then nat (max (int len + k) 0) else min (nat k) len)"

definition jsSlice :: "'a list \<Rightarrow> int \<Rightarrow> int \<Rightarrow> 'a list" where
  "jsSlice xs start end =
     (let k = sliceBound (length xs) start; fin = sliceBound (length xs) end
      in take (fin - k) (drop k xs))"

section \<open>Return transforms\<close>



text \<open>
  \<^verbatim>\<open>
  function calculateAnnualizedReturn(returns, tradingDays = 252) {
    const totalReturn = returns.reduce((acc, r) => acc * (1 + r), 1) - 1;
    const periods = returns.length / tradingDays;
    return Math.pow(1 + totalReturn, 1 / periods) - 1;
  }
  \<close>
  The function has no guard, no \<^verbatim>\<open>throw\<close> and calls no library: it returns a number
  for every input.
\<close>

definition calculateAnnualizedReturn :: "real list \<Rightarrow> real \<Rightarrow> jsnum" where
  "calculateAnnualizedReturn returns tradingDays =
     (let totalReturn =
            jsSub (foldl (\<lambda>acc r. jsMul acc (jsAdd (Num 1) (Num r))) (Num 1) returns) (Num 1);
          periods = jsDiv (Num (real (length returns))) (Num tradingDays)
      in jsSub (Math_pow (jsAdd (Num 1) totalReturn) (jsDiv (Num 1) periods)) (Num 1))"

section \<open>The statistics package\<close>

text \<open>
  Mean, variance and standard deviation come from the npm package \<^verbatim>\<open>simple-statistics\<close>
  (\<^verbatim>\<open>const ss = require('simple-statistics')\<close>), a dependency that is not part of the
  repository. Its functions are modelled after the package's documented behaviour:
  \<^item> \<^verbatim>\<open>ss.sum(x)\<close>: the Kahan-Babuska compensated sum,
    \<^verbatim>\<open>
    let sum = x[0]; let correction = 0; let transition;
    for (let i = 1; i < x.length; i++) {
      transition = sum + x[i];
      if (Math.abs(sum) >= Math.abs(x[i])) { correction += sum - transition + x[i]; }
      else { correction += x[i] - transition + sum; }
      sum = transition;
    }
    return sum + correction;
    \<close>
    and 0 for an empty array;
  \<^item> \<^verbatim>\<open>ss.mean(x)\<close>: \<^verbatim>\<open>ss.sum(x)\<close> divided by the length of \<open>x\<close>; an empty array throws an
    \<^verbatim>\<open>Error\<close>;
  \<^item> \<^verbatim>\<open>ss.variance(x)\<close>: the population variance, the sum of squared deviations from the
    mean divided by the length of \<open>x\<close>; an empty array throws an \<^verbatim>\<open>Error\<close>;
  \<^item> \<^verbatim>\<open>ss.standardDeviation(x)\<close>: the population standard deviation, 0 for an array of
    length 1 and the square root of \<^verbatim>\<open>ss.variance(x)\<close> otherwise. (The package's
    \<^verbatim>\<open>sampleVariance\<close> and \<^verbatim>\<open>sampleStandardDeviation\<close>, which divide by \<open>n - 1\<close>, are
    not called by the module.)

  The sum is written once, over the rounding \<open>rd\<close> applied to each operation: the identity
  in the exact reading (\<open>ss_sum\<close>), \<open>round64\<close> in binary64 (\<open>ss_sum64\<close>).
\<close>

datatype js_error = Error string

definition compensatedStep :: "(jsnum \<Rightarrow> jsnum) \<Rightarrow> jsnum \<times> jsnum \<Rightarrow> jsnum \<Rightarrow> jsnum \<times> jsnum" where
  "compensatedStep rd sc xi =
     (let sum = fst sc; correction = snd sc;
          transition = rd (jsAdd sum xi)
      in (transition,
          if jsGreaterEq (jsAbs sum) (jsAbs xi)
          then rd (jsAdd correction (rd (jsAdd (rd (jsSub sum transition)) xi)))
          else rd (jsAdd correction (rd (jsAdd (rd (jsSub xi transition)) sum)))))"

definition compensatedSum :: "(jsnum \<Rightarrow> jsnum) \<Rightarrow> jsnum list \<Rightarrow> jsnum" where
  "compensatedSum rd x =
     (case x of
        [] \<Rightarrow> Num 0
      | x0 # rest \<Rightarrow>
          (let sc = foldl (compensatedStep rd) (x0, Num 0) rest
           in rd (jsAdd (fst sc) (snd sc))))"

definition ss_sum :: "jsnum list \<Rightarrow> jsnum" where
  "ss_sum x = compensatedSum (\<lambda>v. v) x"

definition ss_sum64 :: "jsnum list \<Rightarrow> jsnum" where
  "ss_sum64 x = compensatedSum round64 x"

definition ss_mean64 :: "jsnum list \<Rightarrow> js_error + jsnum" where
  "ss_mean64 x =
     (if length x = 0 then Inl (Error ''mean requires at least one data point'')
      else Inr (div64 (ss_sum64 x) (Num (real (length x)))))"

definition ss_mean :: "jsnum list \<Rightarrow> js_error + jsnum" where
  "ss_mean x =
     (if length x = 0 then Inl (Error ''mean requires at least one data point'')
      else Inr (jsDiv (ss_sum x) (Num (real (length x)))))"

definition ss_sumSquaredDeviations :: "jsnum list \<Rightarrow> js_error + jsnum" where
  "ss_sumSquaredDeviations x =
     (case ss_mean x of
        Inl e \<Rightarrow> Inl e
      | Inr meanValue \<Rightarrow>
          Inr (foldl (\<lambda>s xi. jsAdd s (jsMul (jsSub xi meanValue) (jsSub xi meanValue)))
                 (Num 0) x))"

definition ss_variance :: "jsnum list \<Rightarrow> js_error + jsnum" where
  "ss_variance x =
     (if length x = 0 then Inl (Error ''variance requires at least one data point'')
      else (case ss_sumSquaredDeviations x of
              Inl e \<Rightarrow> Inl e
            | Inr s \<Rightarrow> Inr (jsDiv s (Num (real (length x))))))"

definition ss_standardDeviation :: "jsnum list \<Rightarrow> js_error + jsnum" where
  "ss_standardDeviation x =
     (if length x = 1 then Inr (Num 0)
      else (case ss_variance x of Inl e \<Rightarrow> Inl e | Inr v \<Rightarrow> Inr (Math_sqrt v)))"

section \<open>Distribution and risk statistics\<close>

text \<open>
  An exception thrown by the package propagates through the calling function, which has no
  \<^verbatim>\<open>try\<close>: such functions return \<open>js_error + jsnum\<close>.
  \<^verbatim>\<open>
  function calculateVolatility(returns, tradingDays = 252) {
    const stdDev = ss.standardDeviation(returns);
    return stdDev * Math.sqrt(tradingDays);
  }
  \<close>
\<close>

definition calculateVolatility :: "real list \<Rightarrow> real \<Rightarrow> js_error + jsnum" where
  "calculateVolatility returns tradingDays =
     (case ss_standardDeviation (map Num returns) of
        Inl e \<Rightarrow> Inl e
      | Inr stdDev \<Rightarrow> Inr (jsMul stdDev (Math_sqrt (Num tradingDays))))"

text \<open>
  \<^verbatim>\<open>
  function calculateSharpeRatio(returns, riskFreeRate = 0.02, tradingDays = 252) {
    const annualizedReturn = calculateAnnualizedReturn(returns, tradingDays);
    const annualizedVol = calculateVolatility(returns, tradingDays);
    if (annualizedVol === 0) { return 0; }
    return (annualizedReturn - riskFreeRate) / annualizedVol;
  }
  \<close>
\<close>

definition calculateSharpeRatio :: "real list \<Rightarrow> real \<Rightarrow> real \<Rightarrow> js_error + jsnum" where
  "calculateSharpeRatio returns riskFreeRate tradingDays =
     (let annualizedReturn = calculateAnnualizedReturn returns tradingDays
      in case calculateVolatility returns tradingDays of
           Inl e \<Rightarrow> Inl e
         | Inr annualizedVol \<Rightarrow>
             Inr (if jsStrictEq annualizedVol (Num 0) then Num 0
                  else jsDiv (jsSub annualizedReturn (Num riskFreeRate)) annualizedVol))"

text \<open>
  \<^verbatim>\<open>
  function calculateSortinoRatio(returns, riskFreeRate = 0.02, tradingDays = 252) {
    const annualizedReturn = calculateAnnualizedReturn(returns, tradingDays);
    const dailyRiskFree = riskFreeRate / tradingDays;
    const downsideReturns = returns
      .filter(r => r < dailyRiskFree)
      .map(r => Math.pow(r - dailyRiskFree, 2));
    if (downsideReturns.length === 0) { return Infinity; }
    const downsideDeviation = Math.sqrt(ss.mean(downsideReturns)) * Math.sqrt(tradingDays);
    if (downsideDeviation === 0) { return Infinity; }
    return (annualizedReturn - riskFreeRate) / downsideDeviation;
  }
  \<close>
  Read in binary64. The locals \<^verbatim>\<open>dailyRiskFree\<close>, \<^verbatim>\<open>downsideReturns\<close> and
  \<^verbatim>\<open>downsideDeviation\<close> are functions of the arguments. The annualised return enters the
  last division only, with its exact value.
\<close>

definition dailyRiskFree :: "real \<Rightarrow> real \<Rightarrow> jsnum" where
  "dailyRiskFree riskFreeRate tradingDays = div64 (Num riskFreeRate) (Num tradingDays)"

definition downsideReturns :: "real list \<Rightarrow> real \<Rightarrow> real \<Rightarrow> jsnum list" where
  "downsideReturns returns riskFreeRate tradingDays =
     map (\<lambda>r. pow64 (sub64 (Num r) (dailyRiskFree riskFreeRate tradingDays)) (Num 2))
       (filter (\<lambda>r. jsLess (Num r) (dailyRiskFree riskFreeRate tradingDays)) returns)"

definition downsideDeviation :: "real list \<Rightarrow> real \<Rightarrow> real \<Rightarrow> js_error + jsnum" where
  "downsideDeviation returns riskFreeRate tradingDays =
     (case ss_mean64 (downsideReturns returns riskFreeRate tradingDays) of
        Inl e \<Rightarrow> Inl e
      | Inr m \<Rightarrow> Inr (mul64 (sqrt64 m) (sqrt64 (Num tradingDays))))"

definition calculateSortinoRatio :: "real list \<Rightarrow> real \<Rightarrow> real \<Rightarrow> js_error + jsnum" where
  "calculateSortinoRatio returns riskFreeRate tradingDays =
     (let annualizedReturn = calculateAnnualizedReturn returns tradingDays
      in if length (downsideReturns returns riskFreeRate tradingDays) = 0 then Inr PInf
         else (case downsideDeviation returns riskFreeRate tradingDays of
                 Inl e \<Rightarrow> Inl e
               | Inr dd \<Rightarrow>
                   Inr (if jsStrictEq dd (Num 0) then PInf
                        else div64 (sub64 annualizedReturn (Num riskFreeRate)) dd)))"

text \<open>
  \<^verbatim>\<open>
  function calculateMaxDrawdown(prices) {
    let maxDrawdown = 0;
    let peak = prices[0];
    let peakIndex = 0;
    let troughIndex = 0;
    for (let i = 1; i < prices.length; i++) {
      if (prices[i] > peak) { peak = prices[i]; peakIndex = i; }
      const drawdown = (peak - prices[i]) / peak;
      if (drawdown > maxDrawdown) { maxDrawdown = drawdown; troughIndex = i; }
    }
    return { maxDrawdown, peakIndex, troughIndex };
  }
  \<close>
  Read in binary64. The returned object is the record \<open>drawdown_info\<close>; the loop state adds the local
  \<^verbatim>\<open>peak\<close>. On an empty array \<^verbatim>\<open>peak\<close> is \<^verbatim>\<open>undefined\<close>, the loop body never runs and
  the initial values are returned.
\<close>

record drawdown_info =
  maxDrawdown :: jsnum
  peakIndex :: nat
  troughIndex :: nat

record drawdown_scan = drawdown_info +
  peak :: real

definition drawdown_step :: "real list \<Rightarrow> drawdown_scan \<Rightarrow> nat \<Rightarrow> drawdown_scan" where
  "drawdown_step prices s i =
     (let s1 = (if peak s < prices ! i then s\<lparr>peak := prices ! i, peakIndex := i\<rparr> else s);
          drawdown = div64 (sub64 (Num (peak s1)) (Num (prices ! i))) (Num (peak s1))
      in if jsGreater drawdown (maxDrawdown s1)
         then s1\<lparr>maxDrawdown := drawdown, troughIndex := i\<rparr>
         else s1)"

text \<open>The loop state after the iterations \<open>i = 1, \<dots>, n - 1\<close>.\<close>

definition drawdown_run :: "real list \<Rightarrow> nat \<Rightarrow> drawdown_scan" where
  "drawdown_run prices n =
     foldl (drawdown_step prices)
       \<lparr>maxDrawdown = Num 0, peakIndex = 0, troughIndex = 0, peak = prices ! 0\<rparr>
       [1..<n]"

definition calculateMaxDrawdown :: "real list \<Rightarrow> drawdown_info" where
  "calculateMaxDrawdown prices =
     (if prices = [] then \<lparr>maxDrawdown = Num 0, peakIndex = 0, troughIndex = 0\<rparr>
      else drawdown_info.truncate (drawdown_run prices (length prices)))"

text \<open>
  \<^verbatim>\<open>
  function calculateCovariance(x, y) {
    const meanX = ss.mean(x);
    const meanY = ss.mean(y);
    let sum = 0;
    for (let i = 0; i < x.length; i++) { sum += (x[i] - meanX) * (y[i] - meanY); }
    return sum / (x.length - 1);
  }
  function calculateBeta(assetReturns, benchmarkReturns) {
    const minLength = Math.min(assetReturns.length, benchmarkReturns.length);
    const asset = assetReturns.slice(0, minLength);
    const benchmark = benchmarkReturns.slice(0, minLength);
    const covariance = calculateCovariance(asset, benchmark);
    const benchmarkVariance = ss.variance(benchmark);
    if (benchmarkVariance === 0) { return 0; }
    return covariance / benchmarkVariance;
  }
  \<close>
\<close>

definition calculateCovariance :: "real list \<Rightarrow> real list \<Rightarrow> js_error + jsnum" where
  "calculateCovariance x y =
     (case ss_mean (map Num x) of
        Inl e \<Rightarrow> Inl e
      | Inr meanX \<Rightarrow>
          (case ss_mean (map Num y) of
             Inl e \<Rightarrow> Inl e
           | Inr meanY \<Rightarrow>
               Inr (jsDiv
                      (foldl (\<lambda>sum i. jsAdd sum
                                (jsMul (jsSub (Num (x ! i)) meanX)
                                       (jsSub (jsIndex y (int i)) meanY)))
                         (Num 0) [0..<length x])
                      (Num (real (length x) - 1)))))"

definition calculateBeta :: "real list \<Rightarrow> real list \<Rightarrow> js_error + jsnum" where
  "calculateBeta assetReturns benchmarkReturns =
     (let minLength = min (length assetReturns) (length benchmarkReturns);
          asset = jsSlice assetReturns 0 (int minLength);
          benchmark = jsSlice benchmarkReturns 0 (int minLength)
      in case calculateCovariance asset benchmark of
           Inl e \<Rightarrow> Inl e
         | Inr covariance \<Rightarrow>
             (case ss_variance (map Num benchmark) of
                Inl e \<Rightarrow> Inl e
              | Inr benchmarkVariance \<Rightarrow>
                  Inr (if jsStrictEq benchmarkVariance (Num 0) then Num 0
                       else jsDiv covariance benchmarkVariance)))"

text \<open>
  \<^verbatim>\<open>
  function calculateVaR(returns, confidenceLevel = 0.95) {
    const sortedReturns = [...returns].sort((a, b) => a - b);
    const index = Math.floor((1 - confidenceLevel) * sortedReturns.length);
    return -sortedReturns[index];
  }
  function calculateCVaR(returns, confidenceLevel = 0.95) {
    const sortedReturns = [...returns].sort((a, b) => a - b);
    const cutoffIndex = Math.floor((1 - confidenceLevel) * sortedReturns.length);
    const tailReturns = sortedReturns.slice(0, cutoffIndex + 1);
    return -ss.mean(tailReturns);
  }
  \<close>
  Read in binary64. On finite numbers the comparator \<^verbatim>\<open>(a, b) => a - b\<close> sorts
  ascending: the rounded difference of two different binary64 values is never 0. The index
  is a number: \<open>jsIndexNum\<close> reads the element when it is an integer inside the array,
  and \<open>sliceEnd\<close> is the integer that \<^verbatim>\<open>slice\<close> makes of its second argument.
\<close>

definition jsIndexNum :: "real list \<Rightarrow> jsnum \<Rightarrow> jsnum" where
  "jsIndexNum xs i =
     (case i of
        Num v \<Rightarrow> (if v = of_int \<lfloor>v\<rfloor> then jsIndex xs \<lfloor>v\<rfloor> else NaN)
      | _ \<Rightarrow> NaN)"

definition sliceEnd :: "nat \<Rightarrow> jsnum \<Rightarrow> int" where
  "sliceEnd len v =
     (case v of
        Num x \<Rightarrow> (if 0 \<le> x then \<lfloor>x\<rfloor> else \<lceil>x\<rceil>)
      | PInf \<Rightarrow> int len
      | NInf \<Rightarrow> - int len
      | NaN \<Rightarrow> 0)"

definition cutoffIndex :: "real list \<Rightarrow> real \<Rightarrow> jsnum" where
  "cutoffIndex sortedReturns confidenceLevel =
     Math_floor (mul64 (sub64 (Num 1) (Num confidenceLevel))
                   (Num (real (length sortedReturns))))"

definition calculateVaR :: "real list \<Rightarrow> real \<Rightarrow> jsnum" where
  "calculateVaR returns confidenceLevel =
     (let sortedReturns = sort returns;
          index = cutoffIndex sortedReturns confidenceLevel
      in jsNeg (jsIndexNum sortedReturns index))"

definition calculateCVaR :: "real list \<Rightarrow> real \<Rightarrow> js_error + jsnum" where
  "calculateCVaR returns confidenceLevel =
     (let sortedReturns = sort returns;
          cutoff = cutoffIndex sortedReturns confidenceLevel;
          tailReturns = jsSlice sortedReturns 0
                          (sliceEnd (length sortedReturns) (add64 cutoff (Num 1)))
      in case ss_mean64 (map Num tailReturns) of
           Inl e \<Rightarrow> Inl e
         | Inr m \<Rightarrow> Inr (jsNeg m))"

section \<open>Technical indicators\<close>

text \<open>
  The period of an indicator is an integer count (the routes parse it with
  \<^verbatim>\<open>parseInt\<close>), modelled as a natural number; the loop index of \<open>calculateSMA\<close> starts
  at \<open>period - 1\<close>, which is \<open>-1\<close> for period 0, and is an integer.
  \<^verbatim>\<open>
  function calculateSMA(prices, period) {
    const sma = [];
    for (let i = period - 1; i < prices.length; i++) {
      const sum = prices.slice(i - period + 1, i + 1).reduce((a, b) => a + b, 0);
      sma.push(sum / period);
    }
    return sma;
  }
  \<close>
\<close>

definition calculateSMA :: "real list \<Rightarrow> nat \<Rightarrow> jsnum list" where
  "calculateSMA prices period =
     map (\<lambda>i. jsDiv (Num (foldl (+) 0 (jsSlice prices (i - int period + 1) (i + 1))))
                 (Num (real period)))
       [int period - 1 .. int (length prices) - 1]"

text \<open>
  \<^verbatim>\<open>
  function calculateRSI(prices, period = 14) {
    const rsi = [];
    const gains = [];
    const losses = [];
    for (let i = 1; i < prices.length; i++) {
      const change = prices[i] - prices[i - 1];
      gains.push(change > 0 ? change : 0);
      losses.push(change < 0 ? Math.abs(change) : 0);
    }
    let avgGain = gains.slice(0, period).reduce((a, b) => a + b, 0) / period;
    let avgLoss = losses.slice(0, period).reduce((a, b) => a + b, 0) / period;
    for (let i = period; i < gains.length; i++) {
      avgGain = (avgGain * (period - 1) + gains[i]) / period;
      avgLoss = (avgLoss * (period - 1) + losses[i]) / period;
      if (avgLoss === 0) {
        rsi.push(100);
      } else {
        const rs = avgGain / avgLoss;
        rsi.push(100 - (100 / (1 + rs)));
      }
    }
    return rsi;
  }
  \<close>
  Read in binary64. The state of the second loop is the record \<open>rsi_scan\<close>.
\<close>

definition priceGains :: "real list \<Rightarrow> jsnum list" where
  "priceGains prices =
     map (\<lambda>i. let change = sub64 (Num (prices ! i)) (Num (prices ! (i - 1)))
              in if jsGreater change (Num 0) then change else Num 0)
       [1..<length prices]"

definition priceLosses :: "real list \<Rightarrow> jsnum list" where
  "priceLosses prices =
     map (\<lambda>i. let change = sub64 (Num (prices ! i)) (Num (prices ! (i - 1)))
              in if jsLess change (Num 0) then jsAbs change else Num 0)
       [1..<length prices]"

record rsi_scan =
  avgGain :: jsnum
  avgLoss :: jsnum
  rsi :: "jsnum list"

definition rsi_init :: "real list \<Rightarrow> nat \<Rightarrow> rsi_scan" where
  "rsi_init prices period =
     \<lparr>avgGain = div64 (foldl add64 (Num 0) (jsSlice (priceGains prices) 0 (int period)))
                  (Num (real period)),
      avgLoss = div64 (foldl add64 (Num 0) (jsSlice (priceLosses prices) 0 (int period)))
                  (Num (real period)),
      rsi = []\<rparr>"

definition rsi_step :: "real list \<Rightarrow> nat \<Rightarrow> rsi_scan \<Rightarrow> nat \<Rightarrow> rsi_scan" where
  "rsi_step prices period s i =
     (let g = div64 (add64 (mul64 (avgGain s) (sub64 (Num (real period)) (Num 1)))
                       (priceGains prices ! i))
                (Num (real period));
          l = div64 (add64 (mul64 (avgLoss s) (sub64 (Num (real period)) (Num 1)))
                       (priceLosses prices ! i))
                (Num (real period))
      in \<lparr>avgGain = g, avgLoss = l,
          rsi = rsi s @
            [if jsStrictEq l (Num 0) then Num 100
             else (let rs = div64 g l
                   in sub64 (Num 100) (div64 (Num 100) (add64 (Num 1) rs)))]\<rparr>)"

definition rsi_run :: "real list \<Rightarrow> nat \<Rightarrow> nat \<Rightarrow> rsi_scan" where
  "rsi_run prices period n =
     foldl (rsi_step prices period) (rsi_init prices period) [period..<n]"

definition calculateRSI :: "real list \<Rightarrow> nat \<Rightarrow> jsnum list" where
  "calculateRSI prices period = rsi (rsi_run prices period (length (priceGains prices)))"

text \<open>
  The smoothed average loss at output position \<open>j\<close>: the value of \<^verbatim>\<open>avgLoss\<close> tested by
  the iteration \<open>i = period + j\<close>, which pushes \<open>rsi[j]\<close>.
\<close>

definition avgLossAt :: "real list \<Rightarrow> nat \<Rightarrow> nat \<Rightarrow> jsnum" where
  "avgLossAt prices period j = avgLoss (rsi_run prices period (period + j + 1))"

section \<open>Reference formulas\<close>

text \<open>
  The standard deviations that \<open>calculateVolatility\<close> is compared with, as formulas on
  the data: \<open>sampleStdev\<close> is the specification's "sample standard deviation of returns"
  (divisor \<open>n - 1\<close>), \<open>populationStdev\<close> has the divisor \<open>n\<close>.
\<close>

definition arithmeticMean :: "real list \<Rightarrow> real" where
  "arithmeticMean xs = sum_list xs / real (length xs)"

definition sumSquaredDeviations :: "real list \<Rightarrow> real" where
  "sumSquaredDeviations xs = (\<Sum>x\<leftarrow>xs. (x - arithmeticMean xs)\<^sup>2)"

definition sampleStdev :: "real list \<Rightarrow> real" where
  "sampleStdev xs = sqrt (sumSquaredDeviations xs / (real (length xs) - 1))"

definition populationStdev :: "real list \<Rightarrow> real" where
  "populationStdev xs = sqrt (sumSquaredDeviations xs / real (length xs))"

section \<open>Loop invariants\<close>

text \<open>The invariant of the drawdown scan on positive binary64 prices.\<close>

definition drawdown_ok :: "drawdown_scan \<Rightarrow> bool" where
  "drawdown_ok s =
     (0 < peak s \<and> is_double (peak s) \<and> (\<exists>d. maxDrawdown s = Num d \<and> 0 \<le> d \<and> d \<le> 1))"

section \<open>Auxiliary facts\<close>

subsection \<open>Rounding\<close>

lemma roundHalfEven_int [simp]: "roundHalfEven (of_int n) = n"
  by (simp add: roundHalfEven_def)

lemma roundHalfEven_bounds: "\<lfloor>y\<rfloor> \<le> roundHalfEven y" "roundHalfEven y \<le> \<lfloor>y\<rfloor> + 1"
  by (simp_all add: roundHalfEven_def Let_def)

lemma roundHalfEven_mono:
  assumes "y \<le> z"
  shows "roundHalfEven y \<le> roundHalfEven z"
proof (cases "\<lfloor>y\<rfloor> = \<lfloor>z\<rfloor>")
  case True
  with assms have "y - of_int \<lfloor>y\<rfloor> \<le> z - of_int \<lfloor>z\<rfloor>" by simp
  with True show ?thesis
    by (auto simp: roundHalfEven_def Let_def)
next
  case False
  with assms have "\<lfloor>y\<rfloor> < \<lfloor>z\<rfloor>"
    using floor_mono [OF assms] by linarith
  then have "\<lfloor>y\<rfloor> + 1 \<le> \<lfloor>z\<rfloor>" by simp
  with roundHalfEven_bounds(2) [of y] roundHalfEven_bounds(1) [of z] show ?thesis
    by linarith
qed

lemma binade:
  assumes "0 < x"
  shows "2 powi \<lfloor>log 2 x\<rfloor> \<le> x" "x < 2 powi (\<lfloor>log 2 x\<rfloor> + 1)"
proof -
  let ?k = "\<lfloor>log 2 x\<rfloor>"
  have p: "(2::real) powr real_of_int ?k = 2 powi ?k"
    "(2::real) powr real_of_int (?k + 1) = 2 powi (?k + 1)"
    by (rule powr_real_of_int'; simp)+
  have "(\<lfloor>log 2 x\<rfloor> = ?k)
      = ((2::real) powr real_of_int ?k \<le> x \<and> x < 2 powr real_of_int (?k + 1))"
    by (rule floor_log_eq_powr_iff) (use assms in simp_all)
  then have "(2::real) powr real_of_int ?k \<le> x \<and> x < 2 powr real_of_int (?k + 1)"
    by blast
  with p show "2 powi ?k \<le> x" "x < 2 powi (?k + 1)"
    by simp_all
qed

lemma binade_unique:
  assumes "0 < x" "2 powi k \<le> x" "x < 2 powi (k + 1)"
  shows "\<lfloor>log 2 x\<rfloor> = k"
proof -
  have "(2::real) powr real_of_int k = 2 powi k" "(2::real) powr real_of_int (k + 1) = 2 powi (k + 1)"
    by (rule powr_real_of_int'; simp)+
  moreover have "(\<lfloor>log 2 x\<rfloor> = k)
      = ((2::real) powr real_of_int k \<le> x \<and> x < 2 powr real_of_int (k + 1))"
    by (rule floor_log_eq_powr_iff) (use assms in simp_all)
  ultimately show ?thesis using assms by (simp only:)
qed

lemma binade_mono:
  assumes "0 < x" "x \<le> y"
  shows "\<lfloor>log 2 x\<rfloor> \<le> \<lfloor>log 2 y\<rfloor>"
  using assms by (intro floor_mono) simp

lemma ulpExponent_mono:
  assumes "0 < x" "x \<le> y"
  shows "ulpExponent x \<le> ulpExponent y"
  using binade_mono [OF assms] assms by (simp add: ulpExponent_def)

lemma powi_diff: "(2::real) powi a / 2 powi b = 2 powi (a - b)"
  by (simp add: power_int_diff)

lemma powi_Ints: "0 \<le> n \<Longrightarrow> (2::real) powi n \<in> \<int>"
  by (simp add: power_int_def)

lemma roundHalfEven_powi: "0 \<le> n \<Longrightarrow> real_of_int (roundHalfEven (2 powi n)) = 2 powi n"
proof -
  assume "0 \<le> n"
  then have "(2::real) powi n = of_int (2 ^ nat n)" by (simp add: power_int_def)
  then show ?thesis by (simp only: roundHalfEven_int)
qed

text \<open>A value on the grid of its own binade is a fixed point.\<close>

lemma roundToGrid_fixed:
  assumes "x / 2 powi ulpExponent x \<in> \<int>"
  shows "roundToGrid x = x"
proof (cases "x = 0")
  case True
  then show ?thesis by (simp add: roundToGrid_def)
next
  case False
  from assms obtain n where n: "x / 2 powi ulpExponent x = of_int n"
    by (auto elim: Ints_cases)
  then have "roundHalfEven (x / 2 powi ulpExponent x) = n" by simp
  with False n show ?thesis
    by (simp add: roundToGrid_def field_simps)
qed

lemma roundToGrid_scaled:
  assumes x: "x = of_int n * 2 powi s" and n: "\<bar>n\<bar> < 2 ^ 53" and s: "- 1074 \<le> s"
  shows "roundToGrid x = x"
proof (cases "n = 0")
  case True
  with x show ?thesis by (simp add: roundToGrid_def)
next
  case False
  then have pos: "0 < \<bar>x\<bar>" using x by simp
  let ?k = "\<lfloor>log 2 \<bar>x\<bar>\<rfloor>"
  have "\<bar>x\<bar> = of_int \<bar>n\<bar> * 2 powi s" using x by (simp add: abs_mult)
  also have "\<dots> < 2 ^ 53 * 2 powi s"
    using n by (intro mult_strict_right_mono) (simp_all add: of_int_less_iff [symmetric, where ?'a = real] del: of_int_less_iff)
  also have "\<dots> = 2 powi (53 + s)"
    by (simp add: power_int_add)
  finally have "\<bar>x\<bar> < 2 powi (53 + s)" .
  with binade(1) [OF pos] have "(2::real) powi ?k < 2 powi (53 + s)" by simp
  have "?k < 53 + s"
  proof (rule ccontr)
    assume "\<not> ?k < 53 + s"
    then have "(2::real) powi (53 + s) \<le> 2 powi ?k"
      by (intro power_int_increasing) simp_all
    with \<open>(2::real) powi ?k < 2 powi (53 + s)\<close> show False by simp
  qed
  with s have e: "ulpExponent x \<le> s" by (simp add: ulpExponent_def)
  have "x / 2 powi ulpExponent x = of_int n * 2 powi (s - ulpExponent x)"
    using x by (simp add: power_int_diff)
  also from e have "\<dots> \<in> \<int>"
    by (intro Ints_mult powi_Ints) simp_all
  finally show ?thesis by (rule roundToGrid_fixed)
qed

lemma roundToGrid_nonneg:
  assumes "0 \<le> x"
  shows "0 \<le> roundToGrid x"
proof (cases "x = 0")
  case True then show ?thesis by (simp add: roundToGrid_def)
next
  case False
  with assms have "0 \<le> x / 2 powi ulpExponent x" by simp
  from roundHalfEven_mono [OF this] have "0 \<le> roundHalfEven (x / 2 powi ulpExponent x)"
    using roundHalfEven_int [of 0] by simp
  with False show ?thesis by (simp add: roundToGrid_def)
qed

lemma roundToGrid_mono_pos:
  assumes x: "0 < x" and xy: "x \<le> y"
  shows "roundToGrid x \<le> roundToGrid y"
proof (cases "ulpExponent x = ulpExponent y")
  case True
  from x xy have y: "0 < y" by simp
  let ?q = "(2::real) powi ulpExponent y"
  have q: "0 < ?q" by simp
  from xy q have "x / ?q \<le> y / ?q" by (simp add: divide_right_mono)
  from roundHalfEven_mono [OF this]
  have "real_of_int (roundHalfEven (x / ?q)) * ?q \<le> real_of_int (roundHalfEven (y / ?q)) * ?q"
    using q by (intro mult_right_mono) simp_all
  with True x y show ?thesis by (simp add: roundToGrid_def)
next
  case False
  from x xy have y: "0 < y" by simp
  define kx ky where "kx = \<lfloor>log 2 x\<rfloor>" and "ky = \<lfloor>log 2 y\<rfloor>"
  let ?kx = kx and ?ky = ky
  let ?ex = "ulpExponent x" and ?ey = "ulpExponent y"
  from x y have exd: "?ex = max (kx - 52) (- 1074)" and eyd: "?ey = max (ky - 52) (- 1074)"
    by (simp_all add: ulpExponent_def kx_def ky_def)
  from False ulpExponent_mono [OF x xy] have lt: "?ex < ?ey" by simp
  with exd eyd have ey: "?ey = ?ky - 52" and kxy: "?kx < ?ky" and exk: "?ex \<le> ?ky"
    by linarith+
  note bx = binade [OF x, folded kx_def ky_def] and bnd_y = binade [OF y, folded kx_def ky_def]
  let ?b = "(2::real) powi ?ky"
  from kxy have "(2::real) powi (?kx + 1) \<le> ?b"
    by (intro power_int_increasing) simp_all
  with bx(2) have xb: "x \<le> ?b" by simp
  have b_le: "?b \<le> y" by (rule bnd_y(1))
  \<comment> \<open>the boundary is on both grids\<close>
  have "x / 2 powi ?ex \<le> ?b / 2 powi ?ex"
    using xb by (simp add: divide_right_mono)
  from roundHalfEven_mono [OF this]
  have "roundHalfEven (x / 2 powi ?ex) \<le> roundHalfEven (2 powi (?ky - ?ex))"
    by (simp add: powi_diff)
  then have "real_of_int (roundHalfEven (x / 2 powi ?ex)) \<le> 2 powi (?ky - ?ex)"
    using roundHalfEven_powi [of "?ky - ?ex"] exk by linarith
  then have "real_of_int (roundHalfEven (x / 2 powi ?ex)) * 2 powi ?ex
      \<le> 2 powi (?ky - ?ex) * 2 powi ?ex"
    by (intro mult_right_mono) simp_all
  also have "\<dots> = ?b" by (simp add: power_int_add [symmetric])
  finally have rx: "roundToGrid x \<le> ?b" using x by (simp add: roundToGrid_def)
  have "?b / 2 powi ?ey \<le> y / 2 powi ?ey"
    using b_le by (simp add: divide_right_mono)
  from roundHalfEven_mono [OF this]
  have "roundHalfEven (2 powi (?ky - ?ey)) \<le> roundHalfEven (y / 2 powi ?ey)"
    by (simp add: powi_diff)
  then have "2 powi (?ky - ?ey) \<le> real_of_int (roundHalfEven (y / 2 powi ?ey))"
    using roundHalfEven_powi [of "?ky - ?ey"] ey by simp
  then have "2 powi (?ky - ?ey) * 2 powi ?ey
      \<le> real_of_int (roundHalfEven (y / 2 powi ?ey)) * 2 powi ?ey"
    by (intro mult_right_mono) simp_all
  moreover have "2 powi (?ky - ?ey) * 2 powi ?ey = ?b" by (simp add: power_int_add [symmetric])
  ultimately have ry: "?b \<le> roundToGrid y" using y by (simp add: roundToGrid_def)
  from rx ry show ?thesis by simp
qed

lemma roundToGrid_mono:
  assumes "0 \<le> x" "x \<le> y"
  shows "roundToGrid x \<le> roundToGrid y"
proof (cases "x = 0")
  case True
  with assms roundToGrid_nonneg [of y] show ?thesis by (simp add: roundToGrid_def)
next
  case False
  with assms show ?thesis by (intro roundToGrid_mono_pos) simp_all
qed

lemma fl_fixed: "roundToGrid x = x \<Longrightarrow> \<bar>x\<bar> < 2 ^ 1024 \<Longrightarrow> fl x = Num x"
  by (simp add: fl_def Let_def abs_less_iff not_le)

lemma is_double_iff: "is_double x \<longleftrightarrow> roundToGrid x = x \<and> \<bar>x\<bar> < 2 ^ 1024"
  by (auto simp: is_double_def fl_def Let_def split: if_splits)

text \<open>An integer of less than 53 bits, scaled by a power of two in range, is a binary64 value.\<close>

lemma fl_scaled:
  assumes x: "x = of_int n * 2 powi s" and n: "\<bar>n\<bar> < 2 ^ 53" and s: "- 1074 \<le> s" "s \<le> 971"
  shows "fl x = Num x"
proof (rule fl_fixed)
  show "roundToGrid x = x" by (rule roundToGrid_scaled [OF x n s(1)])
  have "\<bar>x\<bar> = of_int \<bar>n\<bar> * 2 powi s" using x by (simp add: abs_mult)
  also have "\<dots> \<le> of_int \<bar>n\<bar> * 2 powi 971"
    using s by (intro mult_left_mono power_int_increasing) simp_all
  also have "\<dots> < 2 ^ 53 * 2 powi 971"
    using n
    by (intro mult_strict_right_mono)
      (simp_all add: of_int_less_iff [symmetric, where ?'a = real] del: of_int_less_iff)
  also have "\<dots> = 2 ^ 1024" by simp
  finally show "\<bar>x\<bar> < 2 ^ 1024" .
qed

lemma fl_small:
  assumes "x * 1024 \<in> \<int>" "\<bar>x\<bar> < 2 ^ 40"
  shows "fl x = Num x"
proof -
  from assms(1) obtain n where n: "x * 1024 = of_int n" by (auto elim: Ints_cases)
  then have x: "x = of_int n * 2 powi (- 10)" by simp
  from n assms(2) have "\<bar>real_of_int n\<bar> < 2 ^ 53" by (simp add: abs_mult flip: n)
  then have "\<bar>n\<bar> < 2 ^ 53"
    by (simp add: of_int_less_iff [symmetric, where ?'a = real] del: of_int_less_iff)
  from fl_scaled [OF x this] show ?thesis by simp
qed

text \<open>Rounding keeps a non-negative value below a binary64 bound.\<close>

lemma fl_between:
  assumes "0 \<le> x" "x \<le> y" "is_double y"
  shows "\<exists>a. fl x = Num a \<and> 0 \<le> a \<and> a \<le> y"
proof -
  from assms(3) have y: "roundToGrid y = y" "\<bar>y\<bar> < 2 ^ 1024" by (simp_all add: is_double_iff)
  from roundToGrid_mono [OF assms(1,2)] y have le: "roundToGrid x \<le> y" by simp
  from roundToGrid_nonneg [OF assms(1)] have ge: "0 \<le> roundToGrid x" .
  from le ge y(2) have "fl x = Num (roundToGrid x)" by (simp add: fl_def Let_def)
  with le ge show ?thesis by simp
qed

lemma fl_overflow:
  assumes "2 ^ 1024 \<le> x"
  shows "fl x = PInf"
proof -
  have "roundToGrid (2 ^ 1024) = (2 ^ 1024 :: real)"
    by (rule roundToGrid_scaled [where n = 1 and s = 1024]) simp_all
  with roundToGrid_mono [of "2 ^ 1024" x] assms have "2 ^ 1024 \<le> roundToGrid x" by simp
  then show ?thesis by (simp add: fl_def Let_def)
qed

text \<open>Rounding a value whose binade is known.\<close>

lemma roundToGrid_eval:
  assumes "0 < x" "2 powi k \<le> x" "x < 2 powi (k + 1)" "e = max (k - 52) (- 1074)"
  shows "roundToGrid x = of_int (roundHalfEven (x / 2 powi e)) * 2 powi e"
  using assms binade_unique [OF assms(1-3)] by (simp add: roundToGrid_def ulpExponent_def)

lemma fl_underflow:
  assumes "0 \<le> x" "x \<le> 1 / 2 ^ 1075"
  shows "fl x = Num 0"
proof (cases "x = 0")
  case True
  then show ?thesis by (simp add: fl_def roundToGrid_def)
next
  case False
  have half: "roundToGrid (1 / 2 ^ 1075) = 0"
    by (subst roundToGrid_eval [where k = "- 1075" and e = "- 1074"])
      (simp_all add: roundHalfEven_def)
  from roundToGrid_mono [OF assms] half roundToGrid_nonneg [OF assms(1)]
  have "roundToGrid x = 0" by simp
  then show ?thesis by (simp add: fl_def)
qed

subsection \<open>Exact arithmetic\<close>

lemma jsSlice_prefix: "jsSlice xs 0 (int m) = take m xs"
  by (cases "m \<le> length xs") (simp_all add: jsSlice_def sliceBound_def Let_def min_def)

lemma compound_fold:
  "foldl (\<lambda>acc r. jsMul acc (jsAdd (Num 1) (Num r))) (Num a) rs
     = Num (a * prod_list (map (\<lambda>r. 1 + r) rs))"
  by (induction rs arbitrary: a) (simp_all add: mult.assoc)

lemma one_plus_minus_one: "jsAdd (Num 1) (jsSub (Num x) (Num 1)) = Num x"
  by (simp add: jsSub_def)

lemma inverse_periods:
  assumes "0 < n"
  shows "jsDiv (Num 1) (jsDiv (Num n) (Num t)) = Num (t / n)"
  using assms by (simp add: signedInf_def)

lemma ss_standardDeviation_single: "ss_standardDeviation [x] = Inr (Num 0)"
  by (simp add: ss_standardDeviation_def)

lemma ss_variance_Inr_nonempty: "ss_variance x = Inr v \<Longrightarrow> x \<noteq> []"
  by (auto simp: ss_variance_def)

text \<open>In exact arithmetic the compensation is 0 and the compensated sum is the sum.\<close>

lemma compensated_fold_exact:
  "foldl (compensatedStep (\<lambda>v. v)) (Num a, Num 0) (map Num xs) = (Num (a + sum_list xs), Num 0)"
  by (induction xs arbitrary: a)
    (simp_all add: compensatedStep_def Let_def jsSub_def add.assoc)

lemma ss_sum_finite: "ss_sum (map Num xs) = Num (sum_list xs)"
  by (cases xs) (simp_all add: ss_sum_def compensatedSum_def compensated_fold_exact Let_def)

lemma ss_mean_finite:
  "xs \<noteq> [] \<Longrightarrow> ss_mean (map Num xs) = Inr (Num (sum_list xs / real (length xs)))"
  by (simp add: ss_mean_def ss_sum_finite)

lemma squared_deviation_fold:
  "foldl (\<lambda>s xi. jsAdd s (jsMul (jsSub xi (Num m)) (jsSub xi (Num m)))) (Num a) (map Num xs)
     = Num (a + (\<Sum>x\<leftarrow>xs. (x - m)\<^sup>2))"
  by (induction xs arbitrary: a) (simp_all add: jsSub_def power2_eq_square add.assoc)

lemma ss_variance_finite:
  assumes "xs \<noteq> []"
  shows "ss_variance (map Num xs) = Inr (Num (sumSquaredDeviations xs / real (length xs)))"
  using assms
  by (simp add: ss_variance_def ss_sumSquaredDeviations_def ss_mean_finite
      squared_deviation_fold sumSquaredDeviations_def arithmeticMean_def)

lemma sumSquaredDeviations_nonneg: "0 \<le> sumSquaredDeviations xs"
  unfolding sumSquaredDeviations_def by (rule sum_list_nonneg) auto

lemma foldl_add_nonneg:
  "(\<forall>x \<in> set xs. 0 \<le> x) \<Longrightarrow> 0 \<le> a \<Longrightarrow> 0 \<le> foldl (+) (a::real) xs"
  by (induction xs arbitrary: a) simp_all

lemma sum_list_bounded:
  "(\<forall>x \<in> set xs. x \<le> b) \<Longrightarrow> sum_list xs \<le> real (length xs) * (b::real)"
  by (induction xs) (simp_all add: algebra_simps)

section \<open>Properties of the return transforms\<close>



section \<open>Annualised return\<close>

text \<open>
  C1, first half, refuted at the empty array. The statement is that an empty \<open>returns\<close>
  array is guarded and fails with a DomainError instead of producing \<^verbatim>\<open>NaN\<close>. The code
  has no guard: \<open>periods\<close> is \<open>0 / 252 = 0\<close>, \<open>1 / periods\<close> is infinite,
  \<^verbatim>\<open>Math.pow(1, Infinity)\<close> is \<^verbatim>\<open>NaN\<close>, and \<^verbatim>\<open>NaN\<close> is what the call returns.
\<close>

theorem calculateAnnualizedReturn_empty_counterexample:
  "calculateAnnualizedReturn [] 252 = NaN"
  by (simp add: calculateAnnualizedReturn_def jsSub_def signedInf_def)

text \<open>
  C1, as the code has it. For an empty \<open>returns\<close> array \<open>calculateAnnualizedReturn\<close>
  raises nothing and returns \<^verbatim>\<open>NaN\<close>, for every \<open>tradingDays\<close>; for a non-empty array it
  returns the compounded return \<open>\<Prod> (1 + r)\<close> raised to the power
  \<open>tradingDays / length returns\<close>, minus 1.
\<close>

theorem calculateAnnualizedReturn_value:
  "(returns = [] \<longrightarrow> calculateAnnualizedReturn returns tradingDays = NaN)
   \<and> (returns \<noteq> [] \<longrightarrow>
        calculateAnnualizedReturn returns tradingDays
          = jsSub (Math_pow (Num (\<Prod>r\<leftarrow>returns. 1 + r))
                      (Num (tradingDays / real (length returns))))
              (Num 1))"
proof (intro conjI impI)
  assume "returns = []"
  then show "calculateAnnualizedReturn returns tradingDays = NaN"
    by (simp add: calculateAnnualizedReturn_def jsSub_def signedInf_def)
next
  assume "returns \<noteq> []"
  then have n: "0 < real (length returns)" by simp
  show "calculateAnnualizedReturn returns tradingDays
          = jsSub (Math_pow (Num (\<Prod>r\<leftarrow>returns. 1 + r))
                      (Num (tradingDays / real (length returns))))
              (Num 1)"
    unfolding calculateAnnualizedReturn_def Let_def compound_fold one_plus_minus_one
      inverse_periods [OF n]
    by simp
qed

theorem calculateAnnualizedReturn_value_witness:
  "calculateAnnualizedReturn [] 1 = NaN
   \<and> calculateAnnualizedReturn [1 / 10] 2 = Num (21 / 100)"
proof -
  have a: "[1 / 10 :: real] \<noteq> []" by simp
  from calculateAnnualizedReturn_value [of "[]" 1]
  have e: "calculateAnnualizedReturn [] 1 = NaN" by simp
  from calculateAnnualizedReturn_value [of "[1 / 10]" 2] a
  have "calculateAnnualizedReturn [1 / 10] 2
      = jsSub (Math_pow (Num (\<Prod>r\<leftarrow>[1 / 10 :: real]. 1 + r))
                      (Num (2 / real (length [1 / 10 :: real]))))
              (Num 1)"
    by blast
  then have "calculateAnnualizedReturn [1 / 10] 2 = Num (21 / 100)"
    by (simp add: jsSub_def power2_eq_square)
  with e show ?thesis by simp
qed

section \<open>Inputs too short for the computation\<close>

text \<open>
  C2, refuted at a period longer than the series. The statement is that \<open>calculateSMA\<close>
  fails with an InsufficientDataError whenever \<open>period > length prices\<close> instead of
  returning an empty result. The loop starts at \<open>i = period - 1 \<ge> length prices\<close>, never
  runs, and the empty array is returned.
\<close>

theorem calculateSMA_short_counterexample:
  "calculateSMA [1, 2] 3 = []"
  by (simp add: calculateSMA_def)

text \<open>
  C2, as the code has it. Neither function checks the length of its input.
  \<open>calculateSMA\<close> returns the empty sequence whenever \<open>period > length prices\<close>;
  \<open>calculateVolatility\<close> returns 0 for a single-element array (for \<open>tradingDays \<ge> 0\<close>),
  and only the empty array fails, with the error thrown by the statistics package.
\<close>

theorem short_input_behaviour:
  "(length prices < period \<longrightarrow> calculateSMA prices period = [])
   \<and> (0 \<le> tradingDays \<longrightarrow> calculateVolatility [r] tradingDays = Inr (Num 0))
   \<and> isl (calculateVolatility [] tradingDays)"
  by (simp add: calculateSMA_def calculateVolatility_def ss_standardDeviation_single
      ss_standardDeviation_def ss_variance_def)

theorem short_input_behaviour_witness:
  "calculateSMA [10, 20] 3 = [] \<and> calculateVolatility [1 / 100] 252 = Inr (Num 0)
   \<and> isl (calculateVolatility [] 252)"
proof -
  have a: "length [10, 20 :: real] < 3" by simp
  have b: "(0 :: real) \<le> 252" by simp
  from short_input_behaviour [of "[10, 20]" 3 252 "1 / 100"] a b
  show ?thesis by blast
qed

section \<open>Maximum drawdown: the reported peak\<close>

text \<open>
  On a strictly increasing series every price is a new peak, every drawdown is 0 and the
  scan ends with \<open>maxDrawdown = 0\<close>, the peak at the last index and the trough index
  still 0.
\<close>

lemma drawdown_run_Suc:
  "1 \<le> n \<Longrightarrow> drawdown_run prices (Suc n) = drawdown_step prices (drawdown_run prices n) n"
  by (simp add: drawdown_run_def)

lemma drawdown_run_increasing:
  "sorted_wrt (<) prices \<Longrightarrow> 1 \<le> n \<Longrightarrow> n \<le> length prices \<Longrightarrow>
     drawdown_run prices n
       = \<lparr>maxDrawdown = Num 0, peakIndex = n - 1, troughIndex = 0, peak = prices ! (n - 1)\<rparr>"
proof (induction n)
  case 0
  then show ?case by simp
next
  case (Suc n)
  show ?case
  proof (cases "1 \<le> n")
    case False
    then have "n = 0" by simp
    then show ?thesis by (simp add: drawdown_run_def)
  next
    case True
    with Suc have run: "drawdown_run prices n
       = \<lparr>maxDrawdown = Num 0, peakIndex = n - 1, troughIndex = 0, peak = prices ! (n - 1)\<rparr>"
      by simp
    from Suc.prems True have "prices ! (n - 1) < prices ! n"
      using sorted_wrt_nth_less [of "(<)" prices "n - 1" n] by simp
    with run True show ?thesis
      by (simp add: drawdown_run_Suc drawdown_step_def Let_def jsGreater_def signedInf_def
          sub64_def div64_def jsSub_def fl_small)
  qed
qed

lemma calculateMaxDrawdown_increasing:
  assumes "sorted_wrt (<) prices"
  shows "maxDrawdown (calculateMaxDrawdown prices) = Num 0"
proof (cases "prices = []")
  case True
  then show ?thesis by (simp add: calculateMaxDrawdown_def)
next
  case False
  then have "1 \<le> length prices" by (cases prices) simp_all
  from drawdown_run_increasing [OF assms this] False show ?thesis
    by (simp add: calculateMaxDrawdown_def drawdown_info.truncate_def)
qed

text \<open>
  C3. The statement is that \<open>calculateMaxDrawdown\<close> returns, with the maximum drawdown,
  the index of the running peak at the time that maximum was achieved and the index of the
  trough. On the prices 100, 50, 200 the maximum drawdown 1/2 is reached at index 1, when the
  running peak is at index 0 (the state after the iteration \<open>i = 1\<close>); the last iteration
  finds a new peak and overwrites \<^verbatim>\<open>peakIndex\<close>, so the function reports the peak at
  index 2, after the trough at index 1.
\<close>

theorem calculateMaxDrawdown_late_peak:
  "calculateMaxDrawdown [100, 50, 200]
     = \<lparr>maxDrawdown = Num (1 / 2), peakIndex = 2, troughIndex = 1\<rparr>
   \<and> maxDrawdown (drawdown_run [100, 50, 200] 2) = Num (1 / 2)
   \<and> peakIndex (drawdown_run [100, 50, 200] 2) = 0"
  by (simp add: calculateMaxDrawdown_def drawdown_run_def drawdown_step_def upt_rec
      jsGreater_def drawdown_info.truncate_def Let_def sub64_def div64_def jsSub_def fl_small)

section \<open>Maximum drawdown: range\<close>

lemma is_double_one: "is_double 1"
  by (simp add: is_double_def fl_small)

lemma rounded_drawdown:
  assumes k: "0 < k" "is_double k" and p: "0 < p" "p \<le> k"
  shows "\<exists>d. div64 (sub64 (Num k) (Num p)) (Num k) = Num d \<and> 0 \<le> d \<and> d \<le> 1"
proof -
  from p have "0 \<le> k - p" "k - p \<le> k" by simp_all
  from fl_between [OF this k(2)] obtain a where a: "fl (k - p) = Num a" "0 \<le> a" "a \<le> k"
    by blast
  from a k have "0 \<le> a / k" "a / k \<le> 1" by simp_all
  from fl_between [OF this is_double_one] obtain d where "fl (a / k) = Num d" "0 \<le> d" "d \<le> 1"
    by blast
  with a k show ?thesis by (simp add: sub64_def div64_def jsSub_def)
qed

lemma drawdown_step_ok:
  assumes s: "drawdown_ok s" and p: "0 < prices ! i" "is_double (prices ! i)"
  shows "drawdown_ok (drawdown_step prices s i)"
proof -
  from s obtain d where pk: "0 < peak s" "is_double (peak s)"
    and d: "maxDrawdown s = Num d" "0 \<le> d" "d \<le> 1"
    by (auto simp: drawdown_ok_def)
  define k where "k = (if peak s < prices ! i then prices ! i else peak s)"
  from pk p have k: "0 < k" "is_double k" "prices ! i \<le> k" by (simp_all add: k_def)
  from rounded_drawdown [OF k(1,2) p(1) k(3)] obtain dd
    where dd: "div64 (sub64 (Num k) (Num (prices ! i))) (Num k) = Num dd" "0 \<le> dd" "dd \<le> 1"
    by blast
  with pk d k show ?thesis
    by (auto simp: drawdown_step_def drawdown_ok_def Let_def jsGreater_def k_def)
qed

lemma drawdown_run_ok:
  "prices \<noteq> [] \<Longrightarrow> \<forall>p \<in> set prices. 0 < p \<and> is_double p \<Longrightarrow> n \<le> length prices \<Longrightarrow>
     drawdown_ok (drawdown_run prices n)"
proof (induction n)
  case 0
  then have "0 < prices ! 0 \<and> is_double (prices ! 0)" by (cases prices) simp_all
  then show ?case by (simp add: drawdown_run_def drawdown_ok_def)
next
  case (Suc n)
  show ?case
  proof (cases "1 \<le> n")
    case True
    from Suc.prems have "0 < prices ! n" "is_double (prices ! n)" by simp_all
    with True Suc show ?thesis by (simp add: drawdown_run_Suc drawdown_step_ok)
  next
    case False
    then have "n = 0" by simp
    moreover from Suc.prems have "0 < prices ! 0 \<and> is_double (prices ! 0)"
      by (cases prices) simp_all
    ultimately show ?thesis by (simp add: drawdown_run_def drawdown_ok_def)
  qed
qed

lemma near_one: "fl (1 - 1 / 2 ^ 60) = Num 1"
proof -
  have "roundToGrid (1 - 1 / 2 ^ 60) = 1"
    by (subst roundToGrid_eval [where k = "- 1" and e = "- 53"])
      (simp_all add: roundHalfEven_def)
  then show ?thesis by (simp add: fl_def)
qed

text \<open>
  C10, refuted on the prices 1 and \<open>2 powi -60\<close>. The statement is that on positive prices
  \<open>maxDrawdown\<close> stays in the half-open interval \<open>[0, 1)\<close> and never reaches a full
  loss. The difference \<open>1 - 2 powi -60\<close> rounds to 1, so the drawdown \<open>(peak - p) / peak\<close>
  is exactly 1.
\<close>

theorem calculateMaxDrawdown_full_loss_counterexample:
  "(0 :: real) < 1 / 2 ^ 60 \<and> is_double (1 / 2 ^ 60)
   \<and> maxDrawdown (calculateMaxDrawdown [1, 1 / 2 ^ 60]) = Num 1"
proof -
  have d: "is_double (1 / 2 ^ 60)"
    unfolding is_double_def by (rule fl_scaled [where n = 1 and s = "- 60"]) simp_all
  have "maxDrawdown (calculateMaxDrawdown [1, 1 / 2 ^ 60]) = Num 1"
    by (simp add: calculateMaxDrawdown_def drawdown_run_def drawdown_step_def
        jsGreater_def drawdown_info.truncate_def Let_def sub64_def div64_def jsSub_def
        near_one [simplified] fl_small)
  with d show ?thesis by simp
qed

text \<open>
  C10, as the code has it. For every non-empty series of strictly positive binary64 prices,
  the \<open>maxDrawdown\<close> returned by \<open>calculateMaxDrawdown\<close> is a finite number in the closed
  interval \<open>[0, 1]\<close>.
\<close>

theorem calculateMaxDrawdown_range:
  "prices \<noteq> [] \<and> (\<forall>p \<in> set prices. 0 < p \<and> is_double p) \<longrightarrow>
     (\<exists>d. maxDrawdown (calculateMaxDrawdown prices) = Num d \<and> 0 \<le> d \<and> d \<le> 1)"
proof
  assume h: "prices \<noteq> [] \<and> (\<forall>p \<in> set prices. 0 < p \<and> is_double p)"
  then have "drawdown_ok (drawdown_run prices (length prices))"
    by (simp add: drawdown_run_ok)
  with h show "\<exists>d. maxDrawdown (calculateMaxDrawdown prices) = Num d \<and> 0 \<le> d \<and> d \<le> 1"
    by (simp add: calculateMaxDrawdown_def drawdown_ok_def drawdown_info.truncate_def)
qed

theorem calculateMaxDrawdown_range_witness:
  "calculateMaxDrawdown [64, 128, 96, 64, 128]
     = \<lparr>maxDrawdown = Num (1 / 2), peakIndex = 1, troughIndex = 3\<rparr>
   \<and> (\<exists>d. maxDrawdown (calculateMaxDrawdown [64, 128, 96, 64, 128]) = Num d
          \<and> 0 \<le> d \<and> d \<le> 1)
   \<and> (\<exists>d. maxDrawdown (calculateMaxDrawdown [1, 1 / 2 ^ 60]) = Num d \<and> 0 \<le> d \<and> d \<le> 1)"
proof -
  have h: "[64, 128, 96, 64, 128 :: real] \<noteq> []
      \<and> (\<forall>p \<in> set [64, 128, 96, 64, 128 :: real]. 0 < p \<and> is_double p)"
    by (simp add: is_double_def fl_small)
  have d: "is_double (1 / 2 ^ 60)"
    unfolding is_double_def by (rule fl_scaled [where n = 1 and s = "- 60"]) simp_all
  then have h2: "[1, 1 / 2 ^ 60 :: real] \<noteq> []
      \<and> (\<forall>p \<in> set [1, 1 / 2 ^ 60 :: real]. 0 < p \<and> is_double p)"
    by (simp add: is_double_def fl_small)
  have e: "calculateMaxDrawdown [64, 128, 96, 64, 128]
     = \<lparr>maxDrawdown = Num (1 / 2), peakIndex = 1, troughIndex = 3\<rparr>"
    by (simp add: calculateMaxDrawdown_def drawdown_run_def drawdown_step_def upt_rec
        jsGreater_def drawdown_info.truncate_def Let_def sub64_def div64_def jsSub_def fl_small)
  from calculateMaxDrawdown_range [of "[64, 128, 96, 64, 128]"] h
  have a: "\<exists>d. maxDrawdown (calculateMaxDrawdown [64, 128, 96, 64, 128]) = Num d
          \<and> 0 \<le> d \<and> d \<le> 1"
    by blast
  from calculateMaxDrawdown_range [of "[1, 1 / 2 ^ 60]"] h2
  have b: "\<exists>d. maxDrawdown (calculateMaxDrawdown [1, 1 / 2 ^ 60]) = Num d \<and> 0 \<le> d \<and> d \<le> 1"
    by blast
  from e a b show ?thesis by blast
qed

section \<open>Sentinel values on degenerate input\<close>

lemma rsi_run_Suc:
  "period \<le> n \<Longrightarrow>
     rsi_run prices period (Suc n) = rsi_step prices period (rsi_run prices period n) n"
  by (simp add: rsi_run_def)

lemma rsi_run_start: "n \<le> period \<Longrightarrow> rsi_run prices period n = rsi_init prices period"
  by (simp add: rsi_run_def)

lemma length_rsi_run: "length (rsi (rsi_run prices period n)) = n - period"
proof (induction n)
  case 0
  show ?case by (simp add: rsi_run_start rsi_init_def)
next
  case (Suc n)
  show ?case
  proof (cases "period \<le> n")
    case True
    with Suc show ?thesis
      by (simp add: rsi_run_Suc rsi_step_def Let_def Suc_diff_le)
  next
    case False
    then show ?thesis by (simp add: rsi_run_start rsi_init_def)
  qed
qed

lemma rsi_step_prefix:
  "j < length (rsi s) \<Longrightarrow> rsi (rsi_step prices period s i) ! j = rsi s ! j"
  by (simp add: rsi_step_def Let_def nth_append)

text \<open>An output value, once pushed, is never changed by a later iteration.\<close>

lemma rsi_run_stable:
  "period + j < m \<Longrightarrow> m \<le> n \<Longrightarrow>
     rsi (rsi_run prices period n) ! j = rsi (rsi_run prices period m) ! j"
proof (induction n)
  case 0
  then show ?case by simp
next
  case (Suc n)
  show ?case
  proof (cases "m = Suc n")
    case True
    then show ?thesis by simp
  next
    case False
    with Suc.prems have mn: "m \<le> n" and pn: "period \<le> n" and jn: "j < n - period"
      by simp_all
    from jn have "j < length (rsi (rsi_run prices period n))"
      by (simp add: length_rsi_run)
    then have "rsi (rsi_run prices period (Suc n)) ! j = rsi (rsi_run prices period n) ! j"
      by (simp add: rsi_run_Suc [OF pn] rsi_step_prefix)
    with Suc.IH [OF Suc.prems(1) mn] show ?thesis by simp
  qed
qed

lemma rsi_step_sentinel:
  "avgLoss (rsi_step prices period s i) = Num 0 \<Longrightarrow>
     rsi (rsi_step prices period s i) ! length (rsi s) = Num 100"
  by (simp add: rsi_step_def Let_def jsStrictEq_def)

lemma calculateRSI_sentinel:
  assumes j: "j < length (calculateRSI prices period)"
    and z: "avgLossAt prices period j = Num 0"
  shows "calculateRSI prices period ! j = Num 100"
proof -
  let ?n = "length (priceGains prices)"
  from j have lt: "period + j < ?n"
    by (simp add: calculateRSI_def length_rsi_run)
  have "calculateRSI prices period ! j = rsi (rsi_run prices period (Suc (period + j))) ! j"
    unfolding calculateRSI_def using lt by (intro rsi_run_stable) simp_all
  also have "rsi_run prices period (Suc (period + j))
      = rsi_step prices period (rsi_run prices period (period + j)) (period + j)"
    by (simp add: rsi_run_Suc)
  also have "rsi \<dots> ! j = Num 100"
    using rsi_step_sentinel [of prices period "rsi_run prices period (period + j)" "period + j"] z
    by (simp add: avgLossAt_def rsi_run_Suc length_rsi_run)
  finally show ?thesis .
qed

lemma calculateBeta_sentinel:
  assumes "ss_variance (map Num (jsSlice benchmarkReturns 0
             (int (min (length assetReturns) (length benchmarkReturns))))) = Inr (Num 0)"
  shows "calculateBeta assetReturns benchmarkReturns = Inr (Num 0)"
proof -
  let ?m = "min (length assetReturns) (length benchmarkReturns)"
  from ss_variance_Inr_nonempty [OF assms] have b: "take ?m benchmarkReturns \<noteq> []"
    by (simp add: jsSlice_prefix)
  then have m: "0 < ?m" by (cases "?m") simp_all
  then have "take ?m assetReturns \<noteq> []" by auto
  with b obtain cv where
    "calculateCovariance (take ?m assetReturns) (take ?m benchmarkReturns) = Inr cv"
    by (simp add: calculateCovariance_def ss_mean_def)
  with assms show ?thesis
    by (simp add: calculateBeta_def Let_def jsSlice_prefix jsStrictEq_def)
qed

text \<open>
  C4. Degenerate inputs give sentinel values: \<open>calculateSharpeRatio\<close> returns 0 when the
  annualised volatility is 0; \<open>calculateSortinoRatio\<close> returns \<open>+\<infinity>\<close> when no return is
  below the per-period risk-free rate, and when the downside deviation is 0;
  \<open>calculateBeta\<close> returns 0 when the variance of the truncated benchmark is 0; and
  \<open>calculateRSI\<close> emits 100 at every position where the smoothed average loss is 0.

  The downside deviation is 0 when the squared shortfalls underflow, as for the single
  return \<open>- 2 powi -600\<close> against a risk-free rate of 0.
\<close>

theorem degenerate_sentinels:
  "(calculateVolatility returns tradingDays = Inr (Num 0) \<longrightarrow>
      calculateSharpeRatio returns riskFreeRate tradingDays = Inr (Num 0))
   \<and> (downsideReturns returns riskFreeRate tradingDays = [] \<longrightarrow>
        calculateSortinoRatio returns riskFreeRate tradingDays = Inr PInf)
   \<and> (downsideDeviation returns riskFreeRate tradingDays = Inr (Num 0) \<longrightarrow>
        calculateSortinoRatio returns riskFreeRate tradingDays = Inr PInf)
   \<and> (ss_variance (map Num (jsSlice benchmarkReturns 0
          (int (min (length assetReturns) (length benchmarkReturns))))) = Inr (Num 0) \<longrightarrow>
        calculateBeta assetReturns benchmarkReturns = Inr (Num 0))
   \<and> (\<forall>j < length (calculateRSI prices period).
        avgLossAt prices period j = Num 0 \<longrightarrow> calculateRSI prices period ! j = Num 100)"
proof (intro conjI impI allI)
  assume "calculateVolatility returns tradingDays = Inr (Num 0)"
  then show "calculateSharpeRatio returns riskFreeRate tradingDays = Inr (Num 0)"
    by (simp add: calculateSharpeRatio_def jsStrictEq_def)
next
  assume "downsideReturns returns riskFreeRate tradingDays = []"
  then show "calculateSortinoRatio returns riskFreeRate tradingDays = Inr PInf"
    by (simp add: calculateSortinoRatio_def)
next
  assume "downsideDeviation returns riskFreeRate tradingDays = Inr (Num 0)"
  then show "calculateSortinoRatio returns riskFreeRate tradingDays = Inr PInf"
    by (simp add: calculateSortinoRatio_def jsStrictEq_def)
next
  assume "ss_variance (map Num (jsSlice benchmarkReturns 0
          (int (min (length assetReturns) (length benchmarkReturns))))) = Inr (Num 0)"
  then show "calculateBeta assetReturns benchmarkReturns = Inr (Num 0)"
    by (rule calculateBeta_sentinel)
next
  fix j
  assume "j < length (calculateRSI prices period)" "avgLossAt prices period j = Num 0"
  then show "calculateRSI prices period ! j = Num 100"
    by (rule calculateRSI_sentinel)
qed

lemma squares_underflow: "fl ((1 / 2 ^ 600)\<^sup>2) = Num 0"
  by (rule fl_underflow) (simp_all add: power_divide)

lemma tiny_return: "fl (- (1 / 2 ^ 600)) = Num (- (1 / 2 ^ 600))"
  by (rule fl_scaled [where n = "- 1" and s = "- 600"]) simp_all

theorem degenerate_sentinels_witness:
  "calculateSharpeRatio [1 / 100, 1 / 100] 0 252 = Inr (Num 0)
   \<and> calculateSortinoRatio [1 / 100, 1 / 100] 0 252 = Inr PInf
   \<and> downsideReturns [- (1 / 2 ^ 600)] 0 1 = [Num 0]
   \<and> calculateSortinoRatio [- (1 / 2 ^ 600)] 0 1 = Inr PInf
   \<and> calculateBeta [1, 2] [3, 3] = Inr (Num 0)
   \<and> calculateRSI [1, 2, 3, 5] 2 ! 0 = Num 100"
proof -
  have vol: "calculateVolatility [1 / 100, 1 / 100] 252 = Inr (Num 0)"
    by (simp add: calculateVolatility_def ss_standardDeviation_def ss_variance_def
        ss_sumSquaredDeviations_def ss_mean_def ss_sum_def compensatedSum_def
        compensatedStep_def Let_def jsGreaterEq_def jsStrictEq_def jsSub_def)
  have down: "downsideReturns [1 / 100, 1 / 100] 0 252 = []"
    by (simp add: downsideReturns_def dailyRiskFree_def div64_def fl_small)
  have under: "downsideReturns [- (1 / 2 ^ 600)] 0 1 = [Num 0]"
    by (simp add: downsideReturns_def dailyRiskFree_def div64_def sub64_def pow64_def jsSub_def
        fl_small tiny_return [simplified] squares_underflow [simplified])
  have dev: "downsideDeviation [- (1 / 2 ^ 600)] 0 1 = Inr (Num 0)"
    by (simp add: downsideDeviation_def under [simplified] ss_mean64_def ss_sum64_def compensatedSum_def
        div64_def mul64_def sqrt64_def fl_small)
  have var: "ss_variance (map Num (jsSlice [3, 3] 0
      (int (min (length [1, 2 :: real]) (length [3, 3 :: real]))))) = Inr (Num 0)"
    by (simp add: jsSlice_def sliceBound_def ss_variance_def ss_sumSquaredDeviations_def
        ss_mean_def ss_sum_def compensatedSum_def compensatedStep_def Let_def jsGreaterEq_def
        jsStrictEq_def jsSub_def)
  have len: "0 < length (calculateRSI [1, 2, 3, 5] 2)"
    by (simp add: calculateRSI_def length_rsi_run priceGains_def)
  have loss: "avgLossAt [1, 2, 3, 5] 2 0 = Num 0"
    by (simp add: avgLossAt_def rsi_run_def rsi_step_def rsi_init_def priceGains_def
        priceLosses_def upt_rec jsSlice_def sliceBound_def Let_def jsStrictEq_def jsGreater_def
        add64_def sub64_def mul64_def div64_def jsSub_def fl_small)
  note t = degenerate_sentinels [where returns = "[1 / 100, 1 / 100]" and tradingDays = 252
      and riskFreeRate = 0 and assetReturns = "[1, 2]"
      and benchmarkReturns = "[3, 3]" and prices = "[1, 2, 3, 5]" and period = 2]
  note u = degenerate_sentinels [where returns = "[- (1 / 2 ^ 600)]" and tradingDays = 1
      and riskFreeRate = 0]
  from t vol have a: "calculateSharpeRatio [1 / 100, 1 / 100] 0 252 = Inr (Num 0)"
    by blast
  from t down have b: "calculateSortinoRatio [1 / 100, 1 / 100] 0 252 = Inr PInf"
    by blast
  from u dev have c: "calculateSortinoRatio [- (1 / 2 ^ 600)] 0 1 = Inr PInf"
    by blast
  from t var have d: "calculateBeta [1, 2] [3, 3] = Inr (Num 0)"
    by blast
  from t len loss have e: "calculateRSI [1, 2, 3, 5] 2 ! 0 = Num 100"
    by blast
  from a b under c d e show ?thesis by blast
qed

section \<open>Volatility\<close>

text \<open>
  C6, refuted on the returns 0, 2 with \<open>tradingDays = 1\<close>. The statement is that
  \<open>calculateVolatility\<close> is the sample standard deviation (divisor \<open>n - 1\<close>) times
  \<open>\<surd>tradingDays\<close>. The mean is 1 and the sum of squared deviations is 2: the function
  returns \<open>\<surd>(2 / 2) = 1\<close>, the sample standard deviation is \<open>\<surd>(2 / 1) = \<surd>2\<close>.
\<close>

theorem calculateVolatility_sample_counterexample:
  "calculateVolatility [0, 2] 1 = Inr (Num 1)
   \<and> jsMul (Num (sampleStdev [0, 2])) (Math_sqrt (Num 1)) = Num (sqrt 2)
   \<and> calculateVolatility [0, 2] 1
        \<noteq> Inr (jsMul (Num (sampleStdev [0, 2])) (Math_sqrt (Num 1)))"
proof -
  have v: "calculateVolatility [0, 2] 1 = Inr (Num 1)"
    by (simp add: calculateVolatility_def ss_standardDeviation_def ss_variance_def
        ss_sumSquaredDeviations_def ss_mean_def ss_sum_def compensatedSum_def
        compensatedStep_def Let_def jsGreaterEq_def jsStrictEq_def jsSub_def)
  have w: "jsMul (Num (sampleStdev [0, 2])) (Math_sqrt (Num 1)) = Num (sqrt 2)"
    by (simp add: sampleStdev_def sumSquaredDeviations_def arithmeticMean_def)
  have "sqrt 2 \<noteq> (1::real)" by simp
  with v w show ?thesis by simp
qed

text \<open>
  C6, as the code has it. For every returns array of length \<open>\<ge> 2\<close>,
  \<open>calculateVolatility returns tradingDays\<close> is the population standard deviation of the
  returns (divisor \<open>n\<close>) multiplied by the square root of \<open>tradingDays\<close>.
\<close>

theorem calculateVolatility_population:
  "2 \<le> length returns \<longrightarrow>
     calculateVolatility returns tradingDays
       = Inr (jsMul (Num (populationStdev returns)) (Math_sqrt (Num tradingDays)))"
proof
  assume len: "2 \<le> length returns"
  then have ne: "returns \<noteq> []" by auto
  from len have n1: "length (map Num returns) \<noteq> 1" by simp
  have "0 \<le> sumSquaredDeviations returns / real (length returns)"
    using sumSquaredDeviations_nonneg by simp
  then have "ss_standardDeviation (map Num returns) = Inr (Num (populationStdev returns))"
    using n1 by (simp add: ss_standardDeviation_def ss_variance_finite [OF ne]
        populationStdev_def)
  then show "calculateVolatility returns tradingDays
       = Inr (jsMul (Num (populationStdev returns)) (Math_sqrt (Num tradingDays)))"
    by (simp add: calculateVolatility_def)
qed

theorem calculateVolatility_population_witness:
  "calculateVolatility [0, 2, 4, 2] 4 = Inr (Num (sqrt 2 * 2))"
proof -
  have "2 \<le> length [0, 2, 4, 2 :: real]" by simp
  with calculateVolatility_population [of "[0, 2, 4, 2]" 4]
  have "calculateVolatility [0, 2, 4, 2] 4
       = Inr (jsMul (Num (populationStdev [0, 2, 4, 2])) (Math_sqrt (Num 4)))"
    by blast
  moreover have "sqrt 4 = (2::real)"
    using real_sqrt_abs [of 2] by simp
  ultimately show ?thesis
    by (simp add: populationStdev_def sumSquaredDeviations_def arithmeticMean_def)
qed

section \<open>Value at risk\<close>

lemma fl_mono_finite:
  assumes "0 \<le> x" "x \<le> y" "fl y = Num b"
  shows "\<exists>a. fl x = Num a \<and> 0 \<le> a \<and> a \<le> b"
proof -
  from assms(3) have b: "b = roundToGrid y" "roundToGrid y < 2 ^ 1024"
    by (auto simp: fl_def Let_def split: if_splits)
  from roundToGrid_mono [OF assms(1,2)] b have le: "roundToGrid x \<le> b" by simp
  from roundToGrid_nonneg [OF assms(1)] have ge: "0 \<le> roundToGrid x" .
  from le ge b have "fl x = Num (roundToGrid x)" by (simp add: fl_def Let_def)
  with le ge show ?thesis by simp
qed

text \<open>The complement \<open>1 - c\<close> of a confidence level, rounded.\<close>

lemma complement_range:
  assumes "0 \<le> c" "c \<le> 1"
  shows "\<exists>y. sub64 (Num 1) (Num c) = Num y \<and> 0 \<le> y \<and> y \<le> 1"
  using fl_between [of "1 - c" 1] assms is_double_one by (simp add: sub64_def jsSub_def)

lemma complement_half:
  assumes "1 / 2 \<le> c" "c \<le> 1"
  shows "\<exists>y. sub64 (Num 1) (Num c) = Num y \<and> 0 \<le> y \<and> y \<le> 1 / 2"
proof -
  have "is_double (1 / 2)" by (simp add: is_double_def fl_small)
  from fl_between [of "1 - c" "1 / 2", OF _ _ this] assms show ?thesis
    by (simp add: sub64_def jsSub_def)
qed

lemma complement_mono:
  assumes "c1 \<le> c2" "c2 \<le> 1" "sub64 (Num 1) (Num c1) = Num y1"
  shows "\<exists>y2. sub64 (Num 1) (Num c2) = Num y2 \<and> 0 \<le> y2 \<and> y2 \<le> y1"
  using fl_mono_finite [of "1 - c2" "1 - c1" y1] assms by (simp add: sub64_def jsSub_def)

text \<open>\<open>calculateVaR\<close> by the rounded product that \<^verbatim>\<open>Math.floor\<close> is applied to.\<close>

lemma calculateVaR_by_product:
  assumes "mul64 (sub64 (Num 1) (Num c)) (Num (real (length returns))) = Num w"
  shows "calculateVaR returns c
     = (if 0 \<le> \<lfloor>w\<rfloor> \<and> \<lfloor>w\<rfloor> < int (length returns) then Num (- (sort returns ! nat \<lfloor>w\<rfloor>))
        else NaN)"
  using assms by (simp add: calculateVaR_def cutoffIndex_def jsIndexNum_def jsIndex_def Let_def)

lemma calculateVaR_not_finite:
  assumes "\<forall>w. mul64 (sub64 (Num 1) (Num c)) (Num (real (length returns))) \<noteq> Num w"
  shows "calculateVaR returns c = NaN"
proof -
  let ?m = "mul64 (sub64 (Num 1) (Num c)) (Num (real (length returns)))"
  from assms have "?m = PInf \<or> ?m = NInf \<or> ?m = NaN" by (cases ?m) simp_all
  then show ?thesis
    by (auto simp: calculateVaR_def cutoffIndex_def jsIndexNum_def Let_def)
qed

text \<open>
  C8, refuted at the confidence level \<open>2 powi -60\<close>. The statement is that for any
  \<open>c1 \<le> c2\<close> in \<open>(0, 1)\<close>, \<open>calculateVaR returns c2 \<ge> calculateVaR returns c1\<close>. For a
  level this close to 0 the complement \<open>1 - c\<close> rounds to 1, the index is the length of
  the array, the element read is \<^verbatim>\<open>undefined\<close> and the result is \<^verbatim>\<open>NaN\<close>, which is
  neither greater nor smaller than anything.
\<close>

theorem calculateVaR_small_confidence_counterexample:
  "calculateVaR [1, 2] (1 / 2 ^ 60) = NaN"
  by (simp add: calculateVaR_def cutoffIndex_def jsIndexNum_def jsIndex_def Let_def
      sub64_def mul64_def jsSub_def near_one [simplified] fl_small)

text \<open>
  C8, as the code has it. For every non-empty returns array and any two confidence levels
  \<open>c1 \<le> c2\<close> in \<open>(0, 1)\<close> for which \<open>calculateVaR returns c1\<close> is a number (its index is
  inside the array), both values are finite and
  \<open>calculateVaR returns c2 \<ge> calculateVaR returns c1\<close>; and \<open>calculateVaR returns c\<close> is a
  number for every level \<open>c\<close> in \<open>[1/2, 1)\<close>, the levels 0.95 and 0.99 among them, on arrays
  of fewer than \<open>2 ^ 53\<close> elements.
\<close>

theorem calculateVaR_monotone:
  "(returns \<noteq> [] \<and> 0 < c1 \<and> c1 \<le> c2 \<and> c2 < 1 \<and> calculateVaR returns c1 \<noteq> NaN \<longrightarrow>
      (\<exists>v1 v2. calculateVaR returns c1 = Num v1 \<and> calculateVaR returns c2 = Num v2
         \<and> v1 \<le> v2))
   \<and> (returns \<noteq> [] \<and> length returns < 2 ^ 53 \<and> 1 / 2 \<le> c \<and> c < 1 \<longrightarrow>
        calculateVaR returns c \<noteq> NaN)"
proof (intro conjI impI)
  assume h: "returns \<noteq> [] \<and> 0 < c1 \<and> c1 \<le> c2 \<and> c2 < 1 \<and> calculateVaR returns c1 \<noteq> NaN"
  let ?n = "length returns"
  from h obtain w1 where w1: "mul64 (sub64 (Num 1) (Num c1)) (Num (real ?n)) = Num w1"
    using calculateVaR_not_finite [of c1 returns] by blast
  from h calculateVaR_by_product [OF w1]
  have i1: "0 \<le> \<lfloor>w1\<rfloor>" "\<lfloor>w1\<rfloor> < int ?n" and v1: "calculateVaR returns c1 = Num (- (sort returns ! nat \<lfloor>w1\<rfloor>))"
    by (auto split: if_splits)
  from h complement_range [of c1] obtain y1 where y1: "sub64 (Num 1) (Num c1) = Num y1" "0 \<le> y1"
    by auto
  from h complement_mono [OF _ _ y1(1), of c2] obtain y2
    where y2: "sub64 (Num 1) (Num c2) = Num y2" "0 \<le> y2" "y2 \<le> y1"
    by auto
  from w1 y1 have f1: "fl (y1 * real ?n) = Num w1" by (simp add: mul64_def)
  from y2 have "0 \<le> y2 * real ?n" "y2 * real ?n \<le> y1 * real ?n"
    by (simp_all add: mult_right_mono)
  from fl_mono_finite [OF this f1] obtain w2 where w2: "fl (y2 * real ?n) = Num w2" "0 \<le> w2" "w2 \<le> w1"
    by blast
  with y2 have m2: "mul64 (sub64 (Num 1) (Num c2)) (Num (real ?n)) = Num w2"
    by (simp add: mul64_def)
  from w2 have i2: "0 \<le> \<lfloor>w2\<rfloor>" "\<lfloor>w2\<rfloor> \<le> \<lfloor>w1\<rfloor>" by (simp_all add: floor_mono)
  with i1 calculateVaR_by_product [OF m2]
  have v2: "calculateVaR returns c2 = Num (- (sort returns ! nat \<lfloor>w2\<rfloor>))" by simp
  define j1 j2 where "j1 = \<lfloor>w1\<rfloor>" and "j2 = \<lfloor>w2\<rfloor>"
  with i1 i2 have "0 \<le> j2" "j2 \<le> j1" "j1 < int ?n" by simp_all
  then have "nat j2 \<le> nat j1" "nat j1 < ?n" by linarith+
  then have "nat \<lfloor>w2\<rfloor> \<le> nat \<lfloor>w1\<rfloor>" "nat \<lfloor>w1\<rfloor> < length (sort returns)"
    by (simp_all only: j1_def j2_def length_sort)
  from sorted_nth_mono [OF sorted_sort this]
  have "sort returns ! nat \<lfloor>w2\<rfloor> \<le> sort returns ! nat \<lfloor>w1\<rfloor>" .
  with v1 v2 show "\<exists>v1 v2. calculateVaR returns c1 = Num v1 \<and> calculateVaR returns c2 = Num v2
         \<and> v1 \<le> v2"
    by simp
next
  assume h: "returns \<noteq> [] \<and> length returns < 2 ^ 53 \<and> 1 / 2 \<le> c \<and> c < 1"
  let ?n = "length returns"
  from h complement_half [of c] obtain y where y: "sub64 (Num 1) (Num c) = Num y" "0 \<le> y" "y \<le> 1 / 2"
    by auto
  from h have "\<bar>int ?n\<bar> < 2 ^ 53" by simp
  then have "fl (real ?n / 2) = Num (real ?n / 2)"
    by (intro fl_scaled [where n = "int ?n" and s = "- 1"]) simp_all
  then have half: "is_double (real ?n / 2)" by (simp add: is_double_def)
  from y have "0 \<le> y * real ?n" "y * real ?n \<le> real ?n / 2"
    using mult_right_mono [of y "1 / 2" "real ?n"] by simp_all
  from fl_between [OF this half] obtain w where w: "fl (y * real ?n) = Num w" "0 \<le> w" "w \<le> real ?n / 2"
    by blast
  with y have m: "mul64 (sub64 (Num 1) (Num c)) (Num (real ?n)) = Num w"
    by (simp add: mul64_def)
  from h have "0 < real ?n" by simp
  with w(3) have "w < real ?n" by linarith
  then have "\<lfloor>w\<rfloor> < int ?n" by (simp add: floor_less_iff)
  moreover from w have "0 \<le> \<lfloor>w\<rfloor>" by simp
  ultimately show "calculateVaR returns c \<noteq> NaN"
    using calculateVaR_by_product [OF m] by simp
qed

theorem calculateVaR_monotone_witness:
  "calculateVaR [- 4, 2, - 2, 1] (1 / 2) = Num (- 1)
   \<and> calculateVaR [- 4, 2, - 2, 1] (3 / 4) = Num 2
   \<and> (\<exists>v1 v2. calculateVaR [- 4, 2, - 2, 1] (1 / 2) = Num v1
          \<and> calculateVaR [- 4, 2, - 2, 1] (3 / 4) = Num v2 \<and> v1 \<le> v2)
   \<and> (\<exists>v1 v2. calculateVaR [- 4, 2, - 2, 1] (95 / 100) = Num v1
          \<and> calculateVaR [- 4, 2, - 2, 1] (99 / 100) = Num v2 \<and> v1 \<le> v2)"
proof -
  note t = calculateVaR_monotone
  have a: "calculateVaR [- 4, 2, - 2, 1] (1 / 2) = Num (- 1)"
    by (simp add: calculateVaR_def cutoffIndex_def jsIndexNum_def jsIndex_def Let_def
        sub64_def mul64_def jsSub_def fl_small)
  have b: "calculateVaR [- 4, 2, - 2, 1] (3 / 4) = Num 2"
    by (simp add: calculateVaR_def cutoffIndex_def jsIndexNum_def jsIndex_def Let_def
        sub64_def mul64_def jsSub_def fl_small)
  have n1: "calculateVaR [- 4, 2, - 2, 1] (1 / 2) \<noteq> NaN"
    using t [of "[- 4, 2, - 2, 1]" 0 0 "1 / 2", THEN conjunct2] by simp
  have n2: "calculateVaR [- 4, 2, - 2, 1] (95 / 100) \<noteq> NaN"
    using t [of "[- 4, 2, - 2, 1]" 0 0 "95 / 100", THEN conjunct2] by simp
  have c: "\<exists>v1 v2. calculateVaR [- 4, 2, - 2, 1] (1 / 2) = Num v1
          \<and> calculateVaR [- 4, 2, - 2, 1] (3 / 4) = Num v2 \<and> v1 \<le> v2"
    using t [of "[- 4, 2, - 2, 1]" "1 / 2" "3 / 4", THEN conjunct1] n1 by simp
  have d: "\<exists>v1 v2. calculateVaR [- 4, 2, - 2, 1] (95 / 100) = Num v1
          \<and> calculateVaR [- 4, 2, - 2, 1] (99 / 100) = Num v2 \<and> v1 \<le> v2"
    using t [of "[- 4, 2, - 2, 1]" "95 / 100" "99 / 100", THEN conjunct1] n2 by simp
  from a b c d show ?thesis by blast
qed

section \<open>Conditional value at risk\<close>

text \<open>
  The binary64 operations on three equal returns \<open>b = 3/2 + 2 powi -51\<close>: the sum \<open>3 b\<close>
  lies half-way between two binary64 values and rounds up, to \<open>9/2 + 2 powi -49\<close>; the
  compensation \<open>- 2 powi -51\<close> is lost in the last addition; a third of the sum rounds to
  \<open>3/2 + 3 * 2 powi -52\<close>, one unit in the last place above \<open>b\<close>.
\<close>

lemma twice_return: "fl (3 + 1 / 2 ^ 50) = Num (3 + 1 / 2 ^ 50)"
  by (rule fl_scaled [where n = "3 * 2 ^ 50 + 1" and s = "- 50"]) simp_all

lemma return_negated: "fl (- (3 / 2 + 1 / 2 ^ 51)) = Num (- (3 / 2 + 1 / 2 ^ 51))"
  by (rule fl_scaled [where n = "- (3 * 2 ^ 50 + 1)" and s = "- 51"]) simp_all

lemma thrice_return: "fl (9 / 2 + 3 / 2 ^ 51) = Num (9 / 2 + 1 / 2 ^ 49)"
proof -
  have "roundToGrid (9 / 2 + 3 / 2 ^ 51) = 9 / 2 + 1 / 2 ^ 49"
    by (subst roundToGrid_eval [where k = 2 and e = "- 50"])
      (simp_all add: roundHalfEven_def)
  then show ?thesis by (simp add: fl_def)
qed

lemma sum_shortfall: "fl (- (3 / 2 + 1 / 2 ^ 50)) = Num (- (3 / 2 + 1 / 2 ^ 50))"
  by (rule fl_scaled [where n = "- (3 * 2 ^ 49 + 1)" and s = "- 50"]) simp_all

lemma sum_compensation: "fl (- (1 / 2 ^ 51)) = Num (- (1 / 2 ^ 51))"
  by (rule fl_scaled [where n = "- 1" and s = "- 51"]) simp_all

lemma third_of_sum: "fl ((9 / 2 + 1 / 2 ^ 49) / 3) = Num (3 / 2 + 3 / 2 ^ 52)"
proof -
  have "roundToGrid ((9 / 2 + 1 / 2 ^ 49) / 3) = 3 / 2 + 3 / 2 ^ 52"
    by (subst roundToGrid_eval [where k = 0 and e = "- 52"])
      (simp_all add: roundHalfEven_def)
  then show ?thesis by (simp add: fl_def)
qed

lemmas return_steps = twice_return [simplified] return_negated [simplified]
  thrice_return [simplified] sum_shortfall [simplified] sum_compensation [simplified]
  third_of_sum [simplified]

lemma tail_sum: "ss_sum64 [Num (3 / 2 + 1 / 2 ^ 51), Num (3 / 2 + 1 / 2 ^ 51), Num (3 / 2 + 1 / 2 ^ 51)]
    = Num (9 / 2 + 1 / 2 ^ 49)"
  by (simp add: ss_sum64_def compensatedSum_def compensatedStep_def Let_def jsGreaterEq_def
      jsStrictEq_def jsSub_def return_steps fl_small)

text \<open>
  C7. The statement is that \<open>calculateCVaR returns c \<ge> calculateVaR returns c\<close> for every
  non-empty returns array and every \<open>c\<close> in \<open>(0, 1)\<close>. On three returns equal to
  \<open>b = 3/2 + 2 powi -51\<close> at confidence 1/4 the cutoff index is 2 and the tail is the whole
  array: \<open>calculateVaR\<close> returns \<open>- b\<close>, \<open>calculateCVaR\<close> returns the negated rounded mean
  \<open>- (b + 2 powi -52)\<close>, which is smaller.
\<close>

theorem calculateCVaR_below_VaR:
  "calculateVaR [3 / 2 + 1 / 2 ^ 51, 3 / 2 + 1 / 2 ^ 51, 3 / 2 + 1 / 2 ^ 51] (1 / 4)
     = Num (- (3 / 2 + 2 / 2 ^ 52))
   \<and> calculateCVaR [3 / 2 + 1 / 2 ^ 51, 3 / 2 + 1 / 2 ^ 51, 3 / 2 + 1 / 2 ^ 51] (1 / 4)
     = Inr (Num (- (3 / 2 + 3 / 2 ^ 52)))"
proof -
  have c: "cutoffIndex [3 / 2 + 1 / 2 ^ 51, 3 / 2 + 1 / 2 ^ 51, 3 / 2 + 1 / 2 ^ 51] (1 / 4)
      = Num 2"
    by (simp add: cutoffIndex_def sub64_def mul64_def jsSub_def fl_small)
  have v: "calculateVaR [3 / 2 + 1 / 2 ^ 51, 3 / 2 + 1 / 2 ^ 51, 3 / 2 + 1 / 2 ^ 51] (1 / 4)
     = Num (- (3 / 2 + 2 / 2 ^ 52))"
    by (simp add: calculateVaR_def c [simplified] jsIndexNum_def jsIndex_def Let_def)
  have w: "calculateCVaR [3 / 2 + 1 / 2 ^ 51, 3 / 2 + 1 / 2 ^ 51, 3 / 2 + 1 / 2 ^ 51] (1 / 4)
     = Inr (Num (- (3 / 2 + 3 / 2 ^ 52)))"
    by (simp add: calculateCVaR_def c [simplified] Let_def add64_def sliceEnd_def jsSlice_def
        sliceBound_def ss_mean64_def tail_sum [simplified] div64_def return_steps fl_small)
  from v w show ?thesis by blast
qed

section \<open>Relative strength index: range\<close>

text \<open>
  Binary64 values near the top of the range: \<open>7 * 2 ^ 1021\<close> and its half and quarter are
  binary64 values, the sums \<open>7 * 2 ^ 1020 + 7 * 2 ^ 1021\<close> and
  \<open>7 * 2 ^ 1019 + 7 * 2 ^ 1021\<close> are beyond \<open>2 ^ 1024\<close> and overflow.
\<close>

lemma swing: "fl (7 * 2 ^ 1021) = Num (7 * 2 ^ 1021)"
  by (rule fl_scaled [where n = "7 * 2 ^ 50" and s = 971]) simp_all

lemma swing_negated: "fl (- (7 * 2 ^ 1021)) = Num (- (7 * 2 ^ 1021))"
  by (rule fl_scaled [where n = "- (7 * 2 ^ 50)" and s = 971]) simp_all

lemma swing_half: "fl (7 * 2 ^ 1020) = Num (7 * 2 ^ 1020)"
  by (rule fl_scaled [where n = "7 * 2 ^ 49" and s = 971]) simp_all

lemma swing_quarter: "fl (7 * 2 ^ 1019) = Num (7 * 2 ^ 1019)"
  by (rule fl_scaled [where n = "7 * 2 ^ 48" and s = 971]) simp_all

lemma gain_overflow: "fl (7 * 2 ^ 1020 + 7 * 2 ^ 1021) = PInf"
  by (rule fl_overflow) simp

lemma loss_overflow: "fl (7 * 2 ^ 1019 + 7 * 2 ^ 1021) = PInf"
  by (rule fl_overflow) simp

lemmas swing_steps = swing [simplified] swing_negated [simplified] swing_half [simplified]
  swing_quarter [simplified] gain_overflow [simplified] loss_overflow [simplified]

text \<open>
  C9. The statement is that every element returned by \<open>calculateRSI\<close> lies in
  \<open>[0, 100]\<close>, for every price series and every period \<open>\<ge> 1\<close>. On the positive prices
  \<open>L, H, L, H, L\<close> with \<open>L = 2 ^ 1000\<close> and \<open>H = L + 7 * 2 ^ 1021\<close> and period 2, the
  smoothed average gain overflows to \<^verbatim>\<open>Infinity\<close> in the first iteration, the smoothed
  average loss in the second, and \<^verbatim>\<open>Infinity / Infinity\<close> makes the second value
  \<^verbatim>\<open>NaN\<close>.
\<close>

theorem calculateRSI_overflow:
  "calculateRSI [2 ^ 1000, 2 ^ 1000 + 7 * 2 ^ 1021, 2 ^ 1000, 2 ^ 1000 + 7 * 2 ^ 1021, 2 ^ 1000] 2
     = [Num 100, NaN]"
  by (simp add: calculateRSI_def rsi_run_def rsi_step_def rsi_init_def priceGains_def
      priceLosses_def upt_rec jsSlice_def sliceBound_def Let_def jsStrictEq_def jsGreater_def
      add64_def sub64_def mul64_def div64_def jsSub_def signedInf_def swing_steps fl_small)

end
